theory Spec2Isabelle
  imports
    Main
    "HOL-Library.Word"
    "HOL-Library.Char_ord"
    "HOL-Library.List_Lexorder"
    "HOL-Library.Sublist"
    "HOL-Library.Multiset"
begin

section \<open>Values shared by the API client and the provider\<close>

text \<open>
  Go strings are byte strings compared byte-wise and lexicographically; \<open>string\<close> with the
  orders of \<open>Char_ord\<close> and \<open>List_Lexorder\<close> is the same order. Go's \<open>int\<close> is an
  \<open>int\<close> here, \<open>uint\<close> a \<open>64 word\<close> and \<open>uint8\<close> an \<open>8 word\<close>; a conversion
  \<open>uint(v)\<close> or \<open>uint8(v)\<close> of an \<open>int\<close> is \<open>word_of_int\<close>, which wraps as Go does.
  A pointer that may be nil is an \<open>option\<close>.
\<close>

type_synonym Time = int

type_synonym uint = "64 word"

type_synonym uint8 = "8 word"

text \<open>
  The error values of the client. The \<open>ErrMissing...\<close> values and \<open>ErrNotOK\<close> are the
  package's distinguished errors; \<open>HTTPError\<close> is the client's \<open>*HTTPError\<close> with its status
  code and the remote's message; \<open>OtherError\<close> is any other error value (transport or decoding
  failure); \<open>Errorf\<close> is an error built by \<open>fmt.Errorf\<close> with its formatted message;
  \<open>TimeoutError\<close> and \<open>UnexpectedStateError\<close> are the errors of the plugin SDK's state
  waiter.
\<close>

record HTTPError =
  StatusCode :: int
  Message :: string

datatype error =
    ErrMissingServiceID
  | ErrMissingServiceVersion
  | ErrMissingName
  | ErrMissingPoolID
  | ErrMissingAddress
  | ErrMissingServer
  | ErrMissingServerSideEncryptionKMSKeyID
  | ErrNotOK
  | HTTPErr HTTPError
  | OtherError string
  | Errorf string
  | TimeoutError
  | UnexpectedStateError string

text \<open>
  Modelled from the spec: \<open>IsNotFound\<close> of \<open>*HTTPError\<close> is declared outside the files at
  hand; the spec calls the swallowed answer "Remote 404".
\<close>

definition IsNotFound :: "HTTPError \<Rightarrow> bool" where
  "IsNotFound e = (StatusCode e = 404)"

text \<open>A function that may panic either returns or panics.\<close>

datatype 'a run = Returns 'a | Panics

section \<open>The records of the API client\<close>

subsection \<open>S3 logging endpoints (s3.go)\<close>

definition S3ServerSideEncryptionAES :: string where
  "S3ServerSideEncryptionAES = ''AES256''"

definition S3ServerSideEncryptionKMS :: string where
  "S3ServerSideEncryptionKMS = ''aws:kms''"

record S3 =
  ServiceID :: string
  ServiceVersion :: int
  Name :: string
  BucketName :: string
  Domain :: string
  AccessKey :: string
  SecretKey :: string
  IAMRole :: string
  Path :: string
  Period :: uint
  CompressionCodec :: string
  GzipLevel :: uint8
  Format :: string
  FormatVersion :: uint
  ResponseCondition :: string
  MessageType :: string
  TimestampFormat :: string
  Placement :: string
  PublicKey :: string
  Redundancy :: string
  ServerSideEncryptionKMSKeyID :: string
  ServerSideEncryption :: string
  CreatedAt :: "Time option"
  UpdatedAt :: "Time option"
  DeletedAt :: "Time option"
  ACL :: string

record ListS3sInput =
  ServiceID :: string
  ServiceVersion :: int

record CreateS3Input =
  ServiceID :: string
  ServiceVersion :: int
  Name :: string
  BucketName :: string
  Domain :: string
  AccessKey :: string
  SecretKey :: string
  IAMRole :: string
  Path :: string
  Period :: uint
  CompressionCodec :: string
  GzipLevel :: uint8
  Format :: string
  MessageType :: string
  FormatVersion :: uint
  ResponseCondition :: string
  TimestampFormat :: string
  Redundancy :: string
  Placement :: string
  PublicKey :: string
  ServerSideEncryptionKMSKeyID :: string
  ServerSideEncryption :: string
  ACL :: string

record GetS3Input =
  ServiceID :: string
  ServiceVersion :: int
  Name :: string

record UpdateS3Input =
  ServiceID :: string
  ServiceVersion :: int
  Name :: string
  NewName :: "string option"
  BucketName :: "string option"
  Domain :: "string option"
  AccessKey :: "string option"
  SecretKey :: "string option"
  IAMRole :: "string option"
  Path :: "string option"
  Period :: "uint option"
  CompressionCodec :: "string option"
  GzipLevel :: "uint8 option"
  Format :: "string option"
  FormatVersion :: "uint option"
  ResponseCondition :: "string option"
  MessageType :: "string option"
  TimestampFormat :: "string option"
  Redundancy :: "string option"
  Placement :: "string option"
  PublicKey :: "string option"
  ServerSideEncryptionKMSKeyID :: "string option"
  ServerSideEncryption :: "string option"
  ACL :: "string option"

record DeleteS3Input =
  ServiceID :: string
  ServiceVersion :: int
  Name :: string

subsection \<open>Headers (header.go)\<close>

record Header =
  ServiceID :: string
  ServiceVersion :: int
  Name :: string
  Action :: string
  IgnoreIfSet :: bool
  Type :: string
  Destination :: string
  Source :: string
  Regex :: string
  Substitution :: string
  Priority :: uint
  RequestCondition :: string
  CacheCondition :: string
  ResponseCondition :: string
  CreatedAt :: "Time option"
  UpdatedAt :: "Time option"
  DeletedAt :: "Time option"

record ListHeadersInput =
  ServiceID :: string
  ServiceVersion :: int

record CreateHeaderInput =
  ServiceID :: string
  ServiceVersion :: int
  Name :: string
  Action :: string
  IgnoreIfSet :: bool
  Type :: string
  Destination :: string
  Source :: string
  Regex :: string
  Substitution :: string
  Priority :: "uint option"
  RequestCondition :: string
  CacheCondition :: string
  ResponseCondition :: string

record GetHeaderInput =
  ServiceID :: string
  ServiceVersion :: int
  Name :: string

record UpdateHeaderInput =
  ServiceID :: string
  ServiceVersion :: int
  Name :: string
  NewName :: "string option"
  Action :: "string option"
  IgnoreIfSet :: "bool option"
  Type :: "string option"
  Destination :: "string option"
  Source :: "string option"
  Regex :: "string option"
  Substitution :: "string option"
  Priority :: "uint option"
  RequestCondition :: "string option"
  CacheCondition :: "string option"
  ResponseCondition :: "string option"

record DeleteHeaderInput =
  ServiceID :: string
  ServiceVersion :: int
  Name :: string

subsection \<open>Gzip rules (gzip.go)\<close>

record Gzip =
  ServiceID :: string
  ServiceVersion :: int
  Name :: string
  ContentTypes :: string
  Extensions :: string
  CacheCondition :: string
  CreatedAt :: "Time option"
  UpdatedAt :: "Time option"
  DeletedAt :: "Time option"

record ListGzipsInput =
  ServiceID :: string
  ServiceVersion :: int

record CreateGzipInput =
  ServiceID :: string
  ServiceVersion :: int
  Name :: string
  ContentTypes :: string
  Extensions :: string
  CacheCondition :: string

record GetGzipInput =
  ServiceID :: string
  ServiceVersion :: int
  Name :: string

record UpdateGzipInput =
  ServiceID :: string
  ServiceVersion :: int
  Name :: string
  NewName :: "string option"
  ContentTypes :: "string option"
  Extensions :: "string option"
  CacheCondition :: "string option"

record DeleteGzipInput =
  ServiceID :: string
  ServiceVersion :: int
  Name :: string

subsection \<open>Pool servers (server.go)\<close>

record Server =
  ServiceID :: string
  PoolID :: string
  ID :: string
  Address :: string
  Comment :: string
  Weight :: uint
  MaxConn :: uint
  Port :: uint
  Disabled :: bool
  OverrideHost :: string
  CreatedAt :: "Time option"
  DeletedAt :: "Time option"
  UpdatedAt :: "Time option"

record ListServersInput =
  ServiceID :: string
  PoolID :: string

record CreateServerInput =
  ServiceID :: string
  PoolID :: string
  Address :: string
  Comment :: string
  Weight :: uint
  MaxConn :: uint
  Port :: uint
  Disabled :: bool
  OverrideHost :: string

record GetServerInput =
  ServiceID :: string
  PoolID :: string
  Server :: string

record UpdateServerInput =
  ServiceID :: string
  PoolID :: string
  Server :: string
  Address :: "string option"
  Comment :: "string option"
  Weight :: "uint option"
  MaxConn :: "uint option"
  Port :: "uint option"
  Disabled :: "bool option"
  OverrideHost :: "string option"

record DeleteServerInput =
  ServiceID :: string
  PoolID :: string
  Server :: string

section \<open>The HTTP client\<close>

text \<open>
  \<open>PostForm\<close> and \<open>PutForm\<close> take the input struct as an \<open>interface{}\<close> and send it as the
  form body; \<open>form\<close> is the union of the structs that are sent.
\<close>

datatype form =
    CreateS3Form CreateS3Input
  | UpdateS3Form UpdateS3Input
  | CreateHeaderForm CreateHeaderInput
  | UpdateHeaderForm UpdateHeaderInput
  | CreateGzipForm CreateGzipInput
  | UpdateGzipForm UpdateGzipInput
  | CreateServerForm CreateServerInput
  | UpdateServerForm UpdateServerInput

datatype verb = GET | POST | PUT | DELETE

datatype request = Request verb string "form option"

text \<open>
  Modelled from the spec: \<open>statusResp\<close> and its method \<open>Ok\<close> are declared outside the files
  at hand; the spec describes "a status object with an \<open>ok\<close> boolean field".
\<close>

record statusResp =
  ok :: bool

definition Ok :: "statusResp \<Rightarrow> bool" where
  "Ok r = ok r"

text \<open>
  What the functions of the client use and the files at hand do not define is a field of
  \<open>Client\<close>: \<open>Do\<close> is the HTTP round trip with the client's check of the response (an error,
  or the body of the response), \<open>PathEscape\<close> is \<open>url.PathEscape\<close>, and each \<open>decode...\<close> is
  \<open>decodeBodyMap\<close> at the type of its out-parameter.
\<close>

record Client =
  Do :: "request \<Rightarrow> error + string"
  PathEscape :: "string \<Rightarrow> string"
  decodeS3s :: "string \<Rightarrow> error + S3 list"
  decodeS3 :: "string \<Rightarrow> error + S3"
  decodeHeaders :: "string \<Rightarrow> error + Header list"
  decodeHeader :: "string \<Rightarrow> error + Header"
  decodeGzips :: "string \<Rightarrow> error + Gzip list"
  decodeGzip :: "string \<Rightarrow> error + Gzip"
  decodeServers :: "string \<Rightarrow> error + Server list"
  decodeServer :: "string \<Rightarrow> error + Server"
  decodeStatus :: "string \<Rightarrow> error + statusResp"

text \<open>
  Every function of the client returns its result together with the requests it has sent, in
  order; a function that returns before its request has sent none.
\<close>

definition send :: "Client \<Rightarrow> request \<Rightarrow> (error + string) \<times> request list" where
  "send c r = (Do c r, [r])"

definition Get :: "Client \<Rightarrow> string \<Rightarrow> (error + string) \<times> request list" where
  "Get c p = send c (Request GET p None)"

definition PostForm :: "Client \<Rightarrow> string \<Rightarrow> form \<Rightarrow> (error + string) \<times> request list" where
  "PostForm c p i = send c (Request POST p (Some i))"

definition PutForm :: "Client \<Rightarrow> string \<Rightarrow> form \<Rightarrow> (error + string) \<times> request list" where
  "PutForm c p i = send c (Request PUT p (Some i))"

definition Delete :: "Client \<Rightarrow> string \<Rightarrow> (error + string) \<times> request list" where
  "Delete c p = send c (Request DELETE p None)"

text \<open>The verb \<open>%d\<close> of \<open>fmt.Sprintf\<close> on an \<open>int\<close>.\<close>

fun digits :: "nat \<Rightarrow> string" where
  "digits n = (if n < 10 then [''0123456789'' ! n]
               else digits (n div 10) @ [''0123456789'' ! (n mod 10)])"

declare digits.simps [simp del]

definition fmt_d :: "int \<Rightarrow> string" where
  "fmt_d i = (if i < 0 then CHR ''-'' # digits (nat (- i)) else digits (nat i))"

subsection \<open>sort.Stable\<close>

text \<open>
  \<open>sort.Stable\<close> of the Go library sorts through the \<open>Less\<close> of the sortable type by insertion:
  each element in turn is swapped leftwards while it is \<open>Less\<close> than its left neighbour
  (longer inputs are sorted in blocks that are then merged, with the same result). \<open>sink\<close> is
  that inner loop on the sorted prefix, held right to left.
\<close>

fun sink :: "('a \<Rightarrow> 'a \<Rightarrow> bool) \<Rightarrow> 'a \<Rightarrow> 'a list \<Rightarrow> 'a list" where
  "sink lt x [] = [x]"
| "sink lt x (y # ys) = (if lt x y then y # sink lt x ys else x # y # ys)"

definition sort_Stable :: "('a \<Rightarrow> 'a \<Rightarrow> bool) \<Rightarrow> 'a list \<Rightarrow> 'a list" where
  "sort_Stable lt xs = rev (foldl (\<lambda>prefix x. sink lt x prefix) [] xs)"

definition s3sByName_Less :: "S3 \<Rightarrow> S3 \<Rightarrow> bool" where
  "s3sByName_Less a b = (S3.Name a < S3.Name b)"

definition headersByName_Less :: "Header \<Rightarrow> Header \<Rightarrow> bool" where
  "headersByName_Less a b = (Header.Name a < Header.Name b)"

definition gzipsByName_Less :: "Gzip \<Rightarrow> Gzip \<Rightarrow> bool" where
  "gzipsByName_Less a b = (Gzip.Name a < Gzip.Name b)"

definition serversByAddress_Less :: "Server \<Rightarrow> Server \<Rightarrow> bool" where
  "serversByAddress_Less a b = (Server.Address a < Server.Address b)"

section \<open>The functions of the API client\<close>

subsection \<open>S3 logging endpoints\<close>

definition ListS3s :: "Client \<Rightarrow> ListS3sInput \<Rightarrow> (error + S3 list) \<times> request list" where
  "ListS3s c i =
    (if ListS3sInput.ServiceID i = '''' then (Inl ErrMissingServiceID, [])
     else if ListS3sInput.ServiceVersion i = 0 then (Inl ErrMissingServiceVersion, [])
     else
       let path = ''/service/'' @ ListS3sInput.ServiceID i @ ''/version/''
                    @ fmt_d (ListS3sInput.ServiceVersion i) @ ''/logging/s3'';
           (resp, sent) = Get c path
       in case resp of
            Inl err \<Rightarrow> (Inl err, sent)
          | Inr body \<Rightarrow>
              (case decodeS3s c body of
                 Inl err \<Rightarrow> (Inl err, sent)
               | Inr s3s \<Rightarrow> (Inr (sort_Stable s3sByName_Less s3s), sent)))"

definition CreateS3 :: "Client \<Rightarrow> CreateS3Input \<Rightarrow> (error + S3) \<times> request list" where
  "CreateS3 c i =
    (if CreateS3Input.ServiceID i = '''' then (Inl ErrMissingServiceID, [])
     else if CreateS3Input.ServiceVersion i = 0 then (Inl ErrMissingServiceVersion, [])
     else if CreateS3Input.ServerSideEncryption i = S3ServerSideEncryptionKMS
               \<and> CreateS3Input.ServerSideEncryptionKMSKeyID i = ''''
       then (Inl ErrMissingServerSideEncryptionKMSKeyID, [])
     else
       let path = ''/service/'' @ CreateS3Input.ServiceID i @ ''/version/''
                    @ fmt_d (CreateS3Input.ServiceVersion i) @ ''/logging/s3'';
           (resp, sent) = PostForm c path (CreateS3Form i)
       in case resp of
            Inl err \<Rightarrow> (Inl err, sent)
          | Inr body \<Rightarrow>
              (case decodeS3 c body of
                 Inl err \<Rightarrow> (Inl err, sent)
               | Inr s3 \<Rightarrow> (Inr s3, sent)))"


text \<open>
  The fourth check of \<open>UpdateS3\<close>, with Go's left-to-right evaluation of \<open>&&\<close>:
  \<open>i.ServerSideEncryption != nil && *i.ServerSideEncryption == S3ServerSideEncryptionKMS &&
  *i.ServerSideEncryptionKMSKeyID == ""\<close>. The last operand dereferences the key ID without a
  nil check; dereferencing nil panics.
\<close>

definition UpdateS3_missing_kms_key_id :: "UpdateS3Input \<Rightarrow> bool run" where
  "UpdateS3_missing_kms_key_id i =
    (case UpdateS3Input.ServerSideEncryption i of
       None \<Rightarrow> Returns False
     | Some sse \<Rightarrow>
         if sse \<noteq> S3ServerSideEncryptionKMS then Returns False
         else (case UpdateS3Input.ServerSideEncryptionKMSKeyID i of
                 None \<Rightarrow> Panics
               | Some key_id \<Rightarrow> Returns (key_id = '''')))"

definition UpdateS3 :: "Client \<Rightarrow> UpdateS3Input \<Rightarrow> (error + S3) run \<times> request list" where
  "UpdateS3 c i =
    (if UpdateS3Input.ServiceID i = '''' then (Returns (Inl ErrMissingServiceID), [])
     else if UpdateS3Input.ServiceVersion i = 0 then (Returns (Inl ErrMissingServiceVersion), [])
     else if UpdateS3Input.Name i = '''' then (Returns (Inl ErrMissingName), [])
     else
       (case UpdateS3_missing_kms_key_id i of
          Panics \<Rightarrow> (Panics, [])
        | Returns True \<Rightarrow> (Returns (Inl ErrMissingServerSideEncryptionKMSKeyID), [])
        | Returns False \<Rightarrow>
            let path = ''/service/'' @ UpdateS3Input.ServiceID i @ ''/version/''
                         @ fmt_d (UpdateS3Input.ServiceVersion i) @ ''/logging/s3/''
                         @ PathEscape c (UpdateS3Input.Name i);
                (resp, sent) = PutForm c path (UpdateS3Form i)
            in case resp of
                 Inl err \<Rightarrow> (Returns (Inl err), sent)
               | Inr body \<Rightarrow>
                   (case decodeS3 c body of
                      Inl err \<Rightarrow> (Returns (Inl err), sent)
                    | Inr s3 \<Rightarrow> (Returns (Inr s3), sent))))"

text \<open>A function that returns only an \<open>error\<close> returns \<open>None\<close> for Go's nil.\<close>

definition DeleteS3 :: "Client \<Rightarrow> DeleteS3Input \<Rightarrow> error option \<times> request list" where
  "DeleteS3 c i =
    (if DeleteS3Input.ServiceID i = '''' then (Some ErrMissingServiceID, [])
     else if DeleteS3Input.ServiceVersion i = 0 then (Some ErrMissingServiceVersion, [])
     else if DeleteS3Input.Name i = '''' then (Some ErrMissingName, [])
     else
       let path = ''/service/'' @ DeleteS3Input.ServiceID i @ ''/version/''
                    @ fmt_d (DeleteS3Input.ServiceVersion i) @ ''/logging/s3/''
                    @ PathEscape c (DeleteS3Input.Name i);
           (resp, sent) = Delete c path
       in case resp of
            Inl err \<Rightarrow> (Some err, sent)
          | Inr body \<Rightarrow>
              (case decodeStatus c body of
                 Inl err \<Rightarrow> (Some err, sent)
               | Inr r \<Rightarrow> if \<not> Ok r then (Some ErrNotOK, sent) else (None, sent)))"

subsection \<open>Headers\<close>

definition ListHeaders :: "Client \<Rightarrow> ListHeadersInput \<Rightarrow> (error + Header list) \<times> request list" where
  "ListHeaders c i =
    (if ListHeadersInput.ServiceID i = '''' then (Inl ErrMissingServiceID, [])
     else if ListHeadersInput.ServiceVersion i = 0 then (Inl ErrMissingServiceVersion, [])
     else
       let path = ''/service/'' @ ListHeadersInput.ServiceID i @ ''/version/''
                    @ fmt_d (ListHeadersInput.ServiceVersion i) @ ''/header'';
           (resp, sent) = Get c path
       in case resp of
            Inl err \<Rightarrow> (Inl err, sent)
          | Inr body \<Rightarrow>
              (case decodeHeaders c body of
                 Inl err \<Rightarrow> (Inl err, sent)
               | Inr xs \<Rightarrow> (Inr (sort_Stable headersByName_Less xs), sent)))"




definition DeleteHeader :: "Client \<Rightarrow> DeleteHeaderInput \<Rightarrow> error option \<times> request list" where
  "DeleteHeader c i =
    (if DeleteHeaderInput.ServiceID i = '''' then (Some ErrMissingServiceID, [])
     else if DeleteHeaderInput.ServiceVersion i = 0 then (Some ErrMissingServiceVersion, [])
     else if DeleteHeaderInput.Name i = '''' then (Some ErrMissingName, [])
     else
       let path = ''/service/'' @ DeleteHeaderInput.ServiceID i @ ''/version/''
                    @ fmt_d (DeleteHeaderInput.ServiceVersion i) @ ''/header/''
                    @ PathEscape c (DeleteHeaderInput.Name i);
           (resp, sent) = Delete c path
       in case resp of
            Inl err \<Rightarrow> (Some err, sent)
          | Inr body \<Rightarrow>
              (case decodeStatus c body of
                 Inl err \<Rightarrow> (Some err, sent)
               | Inr r \<Rightarrow> if \<not> Ok r then (Some ErrNotOK, sent) else (None, sent)))"

subsection \<open>Gzip rules\<close>

definition ListGzips :: "Client \<Rightarrow> ListGzipsInput \<Rightarrow> (error + Gzip list) \<times> request list" where
  "ListGzips c i =
    (if ListGzipsInput.ServiceID i = '''' then (Inl ErrMissingServiceID, [])
     else if ListGzipsInput.ServiceVersion i = 0 then (Inl ErrMissingServiceVersion, [])
     else
       let path = ''/service/'' @ ListGzipsInput.ServiceID i @ ''/version/''
                    @ fmt_d (ListGzipsInput.ServiceVersion i) @ ''/gzip'';
           (resp, sent) = Get c path
       in case resp of
            Inl err \<Rightarrow> (Inl err, sent)
          | Inr body \<Rightarrow>
              (case decodeGzips c body of
                 Inl err \<Rightarrow> (Inl err, sent)
               | Inr xs \<Rightarrow> (Inr (sort_Stable gzipsByName_Less xs), sent)))"




definition DeleteGzip :: "Client \<Rightarrow> DeleteGzipInput \<Rightarrow> error option \<times> request list" where
  "DeleteGzip c i =
    (if DeleteGzipInput.ServiceID i = '''' then (Some ErrMissingServiceID, [])
     else if DeleteGzipInput.ServiceVersion i = 0 then (Some ErrMissingServiceVersion, [])
     else if DeleteGzipInput.Name i = '''' then (Some ErrMissingName, [])
     else
       let path = ''/service/'' @ DeleteGzipInput.ServiceID i @ ''/version/''
                    @ fmt_d (DeleteGzipInput.ServiceVersion i) @ ''/gzip/''
                    @ PathEscape c (DeleteGzipInput.Name i);
           (resp, sent) = Delete c path
       in case resp of
            Inl err \<Rightarrow> (Some err, sent)
          | Inr body \<Rightarrow>
              (case decodeStatus c body of
                 Inl err \<Rightarrow> (Some err, sent)
               | Inr r \<Rightarrow> if \<not> Ok r then (Some ErrNotOK, sent) else (None, sent)))"

subsection \<open>Pool servers\<close>

text \<open>
  Servers belong to a pool and have no version; the server's ID goes into the path as it is.
\<close>

definition ListServers :: "Client \<Rightarrow> ListServersInput \<Rightarrow> (error + Server list) \<times> request list" where
  "ListServers c i =
    (if ListServersInput.ServiceID i = '''' then (Inl ErrMissingServiceID, [])
     else if ListServersInput.PoolID i = '''' then (Inl ErrMissingPoolID, [])
     else
       let path = ''/service/'' @ ListServersInput.ServiceID i @ ''/pool/''
                    @ ListServersInput.PoolID i @ ''/servers'';
           (resp, sent) = Get c path
       in case resp of
            Inl err \<Rightarrow> (Inl err, sent)
          | Inr body \<Rightarrow>
              (case decodeServers c body of
                 Inl err \<Rightarrow> (Inl err, sent)
               | Inr ss \<Rightarrow> (Inr (sort_Stable serversByAddress_Less ss), sent)))"




definition DeleteServer :: "Client \<Rightarrow> DeleteServerInput \<Rightarrow> error option \<times> request list" where
  "DeleteServer c i =
    (if DeleteServerInput.ServiceID i = '''' then (Some ErrMissingServiceID, [])
     else if DeleteServerInput.PoolID i = '''' then (Some ErrMissingPoolID, [])
     else if DeleteServerInput.Server i = '''' then (Some ErrMissingServer, [])
     else
       let path = ''/service/'' @ DeleteServerInput.ServiceID i @ ''/pool/''
                    @ DeleteServerInput.PoolID i @ ''/server/'' @ DeleteServerInput.Server i;
           (resp, sent) = Delete c path
       in case resp of
            Inl err \<Rightarrow> (Some err, sent)
          | Inr body \<Rightarrow>
              (case decodeStatus c body of
                 Inl err \<Rightarrow> (Some err, sent)
               | Inr r \<Rightarrow> if \<not> Ok r then (Some ErrNotOK, sent) else (None, sent)))"

section \<open>The provider: values, handlers and schemas\<close>

text \<open>
  A value of Go's \<open>any\<close> carries its dynamic type. The constructors are the dynamic types
  that occur in the maps of the handlers: \<open>string\<close>, \<open>int\<close>, \<open>uint\<close>, \<open>uint8\<close>, \<open>bool\<close> and
  the three named string types of the S3 client. Two values of \<open>any\<close> are equal in Go when
  their dynamic types and their values are equal, which is the equality of this datatype; in
  particular \<open>v == ""\<close> holds for \<open>AString ''''\<close> only, since the constant has the dynamic
  type \<open>string\<close>.
\<close>

datatype any =
    AString string
  | AInt int
  | AUint uint
  | AUint8 uint8
  | ABool bool
  | AS3Redundancy string
  | AS3ServerSideEncryption string
  | AS3AccessControlList string

type_synonym config = "string \<rightharpoonup> any"

text \<open>
  The type assertions \<open>x.(string)\<close> and \<open>x.(int)\<close> on the result of a map lookup: the lookup
  of an absent key is the nil interface, on which every assertion fails. A failed assertion
  panics.
\<close>

fun is_string :: "any option \<Rightarrow> bool" where
  "is_string (Some (AString s)) = True"
| "is_string _ = False"

fun is_int :: "any option \<Rightarrow> bool" where
  "is_int (Some (AInt n)) = True"
| "is_int _ = False"

fun the_string :: "any option \<Rightarrow> string" where
  "the_string (Some (AString s)) = s"
| "the_string _ = []"

fun the_int :: "any option \<Rightarrow> int" where
  "the_int (Some (AInt n)) = n"
| "the_int _ = 0"

text \<open>
  Modelled from the spec: the service types are declared outside the files at hand; the spec
  names the request/response-oriented (VCL) variant and the compute variant.
\<close>

datatype serviceType = ServiceTypeVCL | ServiceTypeCompute

record ServiceMetadata =
  serviceType :: serviceType

record DefaultServiceAttributeHandler =
  key :: string
  serviceMetadata :: ServiceMetadata

definition GetServiceMetadata :: "DefaultServiceAttributeHandler \<Rightarrow> ServiceMetadata" where
  "GetServiceMetadata h = serviceMetadata h"

text \<open>
  The result of \<open>getVCLLoggingAttributes\<close>, a method of the base handler that is outside the
  files at hand, with the four fields that \<open>buildCreate\<close> reads. The functions that call the
  method take its result as a parameter, and \<open>uintOrDefault\<close>, which is outside too, as a
  function parameter.
\<close>

record vclLoggingAttributes =
  format :: string
  formatVersion :: "uint option"
  placement :: string
  responseCondition :: string

subsection \<open>Schemas\<close>

text \<open>
  A \<open>schema.Schema\<close> with the fields that the handlers set, the documentation text left out.
  A validator is named by the function that builds it; \<open>EnvDefaultFunc\<close> carries the name of
  the environment variable and the fallback value.
\<close>

datatype ValueType = TypeString | TypeInt | TypeSet

datatype validator =
    validateLoggingCompressionCodec
  | validateLoggingMessageType
  | validateStringTrimmed
  | validateLoggingServerSideEncryption
  | validateLoggingFormatVersion
  | validateLoggingPlacement
  | StringInSlice "string list" bool

datatype defaultFunc = EnvDefaultFunc string string

record Schema =
  Type :: ValueType
  Required :: bool
  Optional :: bool
  Sensitive :: bool
  Default :: "any option"
  DefaultFunc :: "defaultFunc option"
  ValidateDiagFunc :: "validator option"

text \<open>The schema of a nested block: a set of resources with the attributes of the block.\<close>

record BlockSchema =
  Type :: ValueType
  Optional :: bool
  Elem :: "string \<rightharpoonup> Schema"

text \<open>A struct literal leaves the fields it does not name at their zero values.\<close>

definition Schema_of :: "ValueType \<Rightarrow> Schema" where
  "Schema_of t =
    \<lparr> Schema.Type = t, Required = False, Schema.Optional = False, Sensitive = False,
      Default = None, DefaultFunc = None, ValidateDiagFunc = None \<rparr>"

subsection \<open>Datadog logging (block of the service resource)\<close>

text \<open>
  The client's Datadog file is outside the files at hand. \<open>Datadog\<close> has the fields that
  \<open>flattenDatadog\<close> reads, \<open>CreateDatadogInput\<close> those that \<open>buildCreate\<close> sets,
  \<open>UpdateDatadogInput\<close> those that \<open>Update\<close> sets and \<open>DeleteDatadogInput\<close> those that
  \<open>buildDelete\<close> sets; the client's \<open>UpdateDatadog\<close> and \<open>DeleteDatadog\<close> are parameters of
  the functions that call them.
\<close>

record Datadog =
  Name :: string
  Token :: string
  Region :: string
  Format :: string
  FormatVersion :: uint
  Placement :: string
  ResponseCondition :: string

record CreateDatadogInput =
  ServiceID :: string
  ServiceVersion :: int
  Name :: string
  Token :: string
  Region :: string
  Format :: string
  FormatVersion :: uint
  Placement :: string
  ResponseCondition :: string

record UpdateDatadogInput =
  ServiceID :: string
  ServiceVersion :: int
  Name :: string
  Token :: "string option"
  Region :: "string option"
  Format :: "string option"
  FormatVersion :: "uint option"
  ResponseCondition :: "string option"
  Placement :: "string option"

record DeleteDatadogInput =
  ServiceID :: string
  ServiceVersion :: int
  Name :: string

definition DatadogServiceAttributeHandler_GetSchema ::
  "DefaultServiceAttributeHandler \<Rightarrow> BlockSchema" where
  "DatadogServiceAttributeHandler_GetSchema h =
    (let blockAttributes =
           [ ''name'' \<mapsto> (Schema_of TypeString) \<lparr> Required := True \<rparr>,
             ''region'' \<mapsto> (Schema_of TypeString)
                \<lparr> Schema.Optional := True, Default := Some (AString ''US'') \<rparr>,
             ''token'' \<mapsto> (Schema_of TypeString) \<lparr> Required := True, Sensitive := True \<rparr> ];
         blockAttributes =
           (if serviceType (GetServiceMetadata h) = ServiceTypeVCL then
              blockAttributes
                (''format'' \<mapsto> (Schema_of TypeString) \<lparr> Schema.Optional := True \<rparr>,
                 ''format_version'' \<mapsto> (Schema_of TypeInt)
                    \<lparr> Schema.Optional := True, Default := Some (AInt 2),
                      ValidateDiagFunc := Some validateLoggingFormatVersion \<rparr>,
                 ''response_condition'' \<mapsto> (Schema_of TypeString) \<lparr> Schema.Optional := True \<rparr>,
                 ''placement'' \<mapsto> (Schema_of TypeString)
                    \<lparr> Schema.Optional := True,
                      ValidateDiagFunc := Some validateLoggingPlacement \<rparr>)
            else blockAttributes)
     in \<lparr> BlockSchema.Type = TypeSet, BlockSchema.Optional = True, Elem = blockAttributes \<rparr>)"


definition DatadogServiceAttributeHandler_buildDelete ::
  "config \<Rightarrow> string \<Rightarrow> int \<Rightarrow> DeleteDatadogInput run" where
  "DatadogServiceAttributeHandler_buildDelete df serviceID serviceVersion =
    (if is_string (df ''name'') then
       Returns \<lparr> DeleteDatadogInput.ServiceID = serviceID,
                 DeleteDatadogInput.ServiceVersion = serviceVersion,
                 DeleteDatadogInput.Name = the_string (df ''name'') \<rparr>
     else Panics)"

text \<open>
  \<open>deleteDatadog\<close>: the assertion \<open>err.(*gofastly.HTTPError)\<close> holds for an error of that
  dynamic type only (and not for nil); an error that is no \<open>*HTTPError\<close>, or one that is not a
  404, is returned as it is.
\<close>

definition deleteDatadog ::
  "(DeleteDatadogInput \<Rightarrow> error option \<times> request list) \<Rightarrow> DeleteDatadogInput
     \<Rightarrow> error option \<times> request list" where
  "deleteDatadog DeleteDatadog i =
    (let (err, sent) = DeleteDatadog i
     in case err of
          Some (HTTPErr errRes) \<Rightarrow> if \<not> IsNotFound errRes then (err, sent) else (None, sent)
        | _ \<Rightarrow> (err, sent))"

definition DatadogServiceAttributeHandler_Delete ::
  "(DeleteDatadogInput \<Rightarrow> error option \<times> request list) \<Rightarrow> string \<Rightarrow> config \<Rightarrow> int
     \<Rightarrow> error option run \<times> request list" where
  "DatadogServiceAttributeHandler_Delete DeleteDatadog d_Id resource serviceVersion =
    (case DatadogServiceAttributeHandler_buildDelete resource d_Id serviceVersion of
       Panics \<Rightarrow> (Panics, [])
     | Returns opts \<Rightarrow> (let (err, sent) = deleteDatadog DeleteDatadog opts in (Returns err, sent)))"

text \<open>
  The loop \<open>for k, v := range m { if v == "" { delete(m, k) } }\<close> that both flatten
  functions run on the map they have built.
\<close>

definition prune_empty :: "config \<Rightarrow> config" where
  "prune_empty m = (\<lambda>k. case m k of None \<Rightarrow> None
                         | Some v \<Rightarrow> if v = AString '''' then None else Some v)"

definition flattenDatadog_one :: "Datadog \<Rightarrow> config" where
  "flattenDatadog_one dl =
    prune_empty
      [ ''name'' \<mapsto> AString (Datadog.Name dl),
        ''token'' \<mapsto> AString (Datadog.Token dl),
        ''region'' \<mapsto> AString (Datadog.Region dl),
        ''format'' \<mapsto> AString (Datadog.Format dl),
        ''format_version'' \<mapsto> AUint (Datadog.FormatVersion dl),
        ''placement'' \<mapsto> AString (Datadog.Placement dl),
        ''response_condition'' \<mapsto> AString (Datadog.ResponseCondition dl) ]"

definition flattenDatadog :: "Datadog list \<Rightarrow> config list" where
  "flattenDatadog datadogList = map flattenDatadog_one datadogList"

subsection \<open>S3 logging (block of the service resource)\<close>

definition S3LoggingServiceAttributeHandler_GetSchema ::
  "DefaultServiceAttributeHandler \<Rightarrow> BlockSchema" where
  \<open>S3LoggingServiceAttributeHandler_GetSchema h =
    (let blockAttributes =
           [ ''acl'' \<mapsto> (Schema_of TypeString)
                \<lparr> Schema.Optional := True,
                  ValidateDiagFunc := Some (StringInSlice
                    [''private'', ''public-read'', ''public-read-write'', ''aws-exec-read'',
                     ''authenticated-read'', ''bucket-owner-read'', ''bucket-owner-full-control'']
                    False) \<rparr>,
             ''bucket_name'' \<mapsto> (Schema_of TypeString) \<lparr> Required := True \<rparr>,
             ''compression_codec'' \<mapsto> (Schema_of TypeString)
                \<lparr> Schema.Optional := True,
                  ValidateDiagFunc := Some validateLoggingCompressionCodec \<rparr>,
             ''domain'' \<mapsto> (Schema_of TypeString)
                \<lparr> Schema.Optional := True, Default := Some (AString ''s3.amazonaws.com'') \<rparr>,
             ''gzip_level'' \<mapsto> (Schema_of TypeInt)
                \<lparr> Schema.Optional := True, Default := Some (AInt 0) \<rparr>,
             ''message_type'' \<mapsto> (Schema_of TypeString)
                \<lparr> Schema.Optional := True, Default := Some (AString ''classic''),
                  ValidateDiagFunc := Some validateLoggingMessageType \<rparr>,
             ''name'' \<mapsto> (Schema_of TypeString) \<lparr> Required := True \<rparr>,
             ''path'' \<mapsto> (Schema_of TypeString) \<lparr> Schema.Optional := True \<rparr>,
             ''period'' \<mapsto> (Schema_of TypeInt)
                \<lparr> Schema.Optional := True, Default := Some (AInt 3600) \<rparr>,
             ''public_key'' \<mapsto> (Schema_of TypeString)
                \<lparr> Schema.Optional := True, ValidateDiagFunc := Some validateStringTrimmed \<rparr>,
             ''redundancy'' \<mapsto> (Schema_of TypeString)
                \<lparr> Schema.Optional := True,
                  ValidateDiagFunc := Some (StringInSlice
                    [''standard'', ''intelligent_tiering'', ''standard_ia'', ''onezone_ia'',
                     ''glacier'', ''glacier_ir'', ''deep_archive'', ''reduced_redundancy'']
                    False) \<rparr>,
             ''s3_access_key'' \<mapsto> (Schema_of TypeString)
                \<lparr> Schema.Optional := True, Sensitive := True,
                  DefaultFunc := Some (EnvDefaultFunc ''FASTLY_S3_ACCESS_KEY'' '''') \<rparr>,
             ''s3_iam_role'' \<mapsto> (Schema_of TypeString)
                \<lparr> Schema.Optional := True, Sensitive := False,
                  DefaultFunc := Some (EnvDefaultFunc ''FASTLY_S3_IAM_ROLE'' '''') \<rparr>,
             ''s3_secret_key'' \<mapsto> (Schema_of TypeString)
                \<lparr> Schema.Optional := True, Sensitive := True,
                  DefaultFunc := Some (EnvDefaultFunc ''FASTLY_S3_SECRET_KEY'' '''') \<rparr>,
             ''server_side_encryption'' \<mapsto> (Schema_of TypeString)
                \<lparr> Schema.Optional := True,
                  ValidateDiagFunc := Some validateLoggingServerSideEncryption \<rparr>,
             ''server_side_encryption_kms_key_id'' \<mapsto> (Schema_of TypeString)
                \<lparr> Schema.Optional := True \<rparr>,
             ''timestamp_format'' \<mapsto> (Schema_of TypeString)
                \<lparr> Schema.Optional := True,
                  Default := Some (AString ''%Y-%m-%dT%H:%M:%S.000'') \<rparr> ];
         blockAttributes =
           (if serviceType (GetServiceMetadata h) = ServiceTypeVCL then
              blockAttributes
                (''format'' \<mapsto> (Schema_of TypeString)
                    \<lparr> Schema.Optional := True,
                      Default := Some (AString ''%h %l %u %t "%r" %>s %b'') \<rparr>,
                 ''format_version'' \<mapsto> (Schema_of TypeInt)
                    \<lparr> Schema.Optional := True, Default := Some (AInt 2),
                      ValidateDiagFunc := Some validateLoggingFormatVersion \<rparr>,
                 ''response_condition'' \<mapsto> (Schema_of TypeString)
                    \<lparr> Schema.Optional := True, Default := Some (AString '''') \<rparr>,
                 ''placement'' \<mapsto> (Schema_of TypeString)
                    \<lparr> Schema.Optional := True,
                      ValidateDiagFunc := Some validateLoggingPlacement \<rparr>)
            else blockAttributes)
     in \<lparr> BlockSchema.Type = TypeSet, BlockSchema.Optional = True, Elem = blockAttributes \<rparr>)\<close>

text \<open>
  \<open>buildCreate\<close>: the struct literal asserts the type of every value it reads from the map.
  The switch on \<open>server_side_encryption\<close> sets the field for the two known values and leaves
  it empty otherwise.
\<close>

definition S3LoggingServiceAttributeHandler_buildCreate_asserts :: "config \<Rightarrow> bool" where
  "S3LoggingServiceAttributeHandler_buildCreate_asserts df =
    (list_all (\<lambda>k. is_string (df k))
       [''name'', ''bucket_name'', ''s3_access_key'', ''s3_secret_key'', ''s3_iam_role'',
        ''domain'', ''path'', ''timestamp_format'', ''message_type'', ''public_key'',
        ''server_side_encryption_kms_key_id'', ''compression_codec'', ''redundancy'', ''acl'',
        ''server_side_encryption'']
     \<and> list_all (\<lambda>k. is_int (df k)) [''period'', ''gzip_level''])"

definition S3LoggingServiceAttributeHandler_buildCreate ::
  "vclLoggingAttributes \<Rightarrow> (uint option \<Rightarrow> uint) \<Rightarrow> config \<Rightarrow> string \<Rightarrow> int
     \<Rightarrow> (error + CreateS3Input) run" where
  "S3LoggingServiceAttributeHandler_buildCreate vla uintOrDefault df serviceID serviceVersion =
    (if \<not> S3LoggingServiceAttributeHandler_buildCreate_asserts df then Panics
     else
       let opts =
             \<lparr> CreateS3Input.ServiceID = serviceID,
               CreateS3Input.ServiceVersion = serviceVersion,
               CreateS3Input.Name = the_string (df ''name''),
               CreateS3Input.BucketName = the_string (df ''bucket_name''),
               CreateS3Input.Domain = the_string (df ''domain''),
               CreateS3Input.AccessKey = the_string (df ''s3_access_key''),
               CreateS3Input.SecretKey = the_string (df ''s3_secret_key''),
               CreateS3Input.IAMRole = the_string (df ''s3_iam_role''),
               CreateS3Input.Path = the_string (df ''path''),
               CreateS3Input.Period = word_of_int (the_int (df ''period'')),
               CreateS3Input.CompressionCodec = the_string (df ''compression_codec''),
               CreateS3Input.GzipLevel = word_of_int (the_int (df ''gzip_level'')),
               CreateS3Input.Format = format vla,
               CreateS3Input.MessageType = the_string (df ''message_type''),
               CreateS3Input.FormatVersion = uintOrDefault (formatVersion vla),
               CreateS3Input.ResponseCondition = responseCondition vla,
               CreateS3Input.TimestampFormat = the_string (df ''timestamp_format''),
               CreateS3Input.Redundancy = the_string (df ''redundancy''),
               CreateS3Input.Placement = placement vla,
               CreateS3Input.PublicKey = the_string (df ''public_key''),
               CreateS3Input.ServerSideEncryptionKMSKeyID =
                 the_string (df ''server_side_encryption_kms_key_id''),
               CreateS3Input.ServerSideEncryption = '''',
               CreateS3Input.ACL = the_string (df ''acl'') \<rparr>;
           encryption = the_string (df ''server_side_encryption'');
           opts =
             (if encryption = S3ServerSideEncryptionAES
                then opts \<lparr> CreateS3Input.ServerSideEncryption := S3ServerSideEncryptionAES \<rparr>
              else if encryption = S3ServerSideEncryptionKMS
                then opts \<lparr> CreateS3Input.ServerSideEncryption := S3ServerSideEncryptionKMS \<rparr>
              else opts)
       in Returns (Inr opts))"

definition createS3 :: "Client \<Rightarrow> CreateS3Input \<Rightarrow> error option \<times> request list" where
  "createS3 conn i =
    (let (res, sent) = CreateS3 conn i
     in case res of Inl err \<Rightarrow> (Some err, sent) | Inr s3 \<Rightarrow> (None, sent))"

definition S3LoggingServiceAttributeHandler_Create ::
  "vclLoggingAttributes \<Rightarrow> (uint option \<Rightarrow> uint) \<Rightarrow> Client \<Rightarrow> string \<Rightarrow> config \<Rightarrow> int
     \<Rightarrow> error option run \<times> request list" where
  "S3LoggingServiceAttributeHandler_Create vla uintOrDefault conn d_Id resource serviceVersion =
    (case S3LoggingServiceAttributeHandler_buildCreate vla uintOrDefault resource d_Id
            serviceVersion of
       Panics \<Rightarrow> (Panics, [])
     | Returns (Inl err) \<Rightarrow> (Returns (Some err), [])
     | Returns (Inr opts) \<Rightarrow> (let (err, sent) = createS3 conn opts in (Returns err, sent)))"

text \<open>
  \<open>Update\<close>: one statement \<open>if v, ok := modified[k]; ok { opts.F = ...(v.(T)) }\<close> for each
  key. A key that is absent from \<open>modified\<close> leaves the pointer nil; a key that is present
  sets the pointer to the asserted value, converted for the three numbers.
\<close>

definition changed_string :: "config \<Rightarrow> string \<Rightarrow> string option" where
  "changed_string modified k =
    (case modified k of None \<Rightarrow> None | Some v \<Rightarrow> Some (the_string (Some v)))"

definition changed_uint :: "config \<Rightarrow> string \<Rightarrow> uint option" where
  "changed_uint modified k =
    (case modified k of None \<Rightarrow> None | Some v \<Rightarrow> Some (word_of_int (the_int (Some v))))"

definition changed_uint8 :: "config \<Rightarrow> string \<Rightarrow> uint8 option" where
  "changed_uint8 modified k =
    (case modified k of None \<Rightarrow> None | Some v \<Rightarrow> Some (word_of_int (the_int (Some v))))"

definition S3LoggingServiceAttributeHandler_Update_asserts :: "config \<Rightarrow> config \<Rightarrow> bool" where
  "S3LoggingServiceAttributeHandler_Update_asserts resource modified =
    (is_string (resource ''name'')
     \<and> list_all (\<lambda>k. modified k = None \<or> is_string (modified k))
         [''bucket_name'', ''domain'', ''s3_access_key'', ''s3_secret_key'', ''s3_iam_role'',
          ''path'', ''compression_codec'', ''format'', ''response_condition'', ''message_type'',
          ''timestamp_format'', ''redundancy'', ''placement'', ''public_key'',
          ''server_side_encryption_kms_key_id'', ''server_side_encryption'', ''acl'']
     \<and> list_all (\<lambda>k. modified k = None \<or> is_int (modified k))
         [''period'', ''gzip_level'', ''format_version''])"

definition S3LoggingServiceAttributeHandler_Update_opts ::
  "string \<Rightarrow> config \<Rightarrow> config \<Rightarrow> int \<Rightarrow> UpdateS3Input" where
  "S3LoggingServiceAttributeHandler_Update_opts d_Id resource modified serviceVersion =
    \<lparr> UpdateS3Input.ServiceID = d_Id,
      UpdateS3Input.ServiceVersion = serviceVersion,
      UpdateS3Input.Name = the_string (resource ''name''),
      UpdateS3Input.NewName = None,
      UpdateS3Input.BucketName = changed_string modified ''bucket_name'',
      UpdateS3Input.Domain = changed_string modified ''domain'',
      UpdateS3Input.AccessKey = changed_string modified ''s3_access_key'',
      UpdateS3Input.SecretKey = changed_string modified ''s3_secret_key'',
      UpdateS3Input.IAMRole = changed_string modified ''s3_iam_role'',
      UpdateS3Input.Path = changed_string modified ''path'',
      UpdateS3Input.Period = changed_uint modified ''period'',
      UpdateS3Input.CompressionCodec = changed_string modified ''compression_codec'',
      UpdateS3Input.GzipLevel = changed_uint8 modified ''gzip_level'',
      UpdateS3Input.Format = changed_string modified ''format'',
      UpdateS3Input.FormatVersion = changed_uint modified ''format_version'',
      UpdateS3Input.ResponseCondition = changed_string modified ''response_condition'',
      UpdateS3Input.MessageType = changed_string modified ''message_type'',
      UpdateS3Input.TimestampFormat = changed_string modified ''timestamp_format'',
      UpdateS3Input.Redundancy = changed_string modified ''redundancy'',
      UpdateS3Input.Placement = changed_string modified ''placement'',
      UpdateS3Input.PublicKey = changed_string modified ''public_key'',
      UpdateS3Input.ServerSideEncryptionKMSKeyID =
        changed_string modified ''server_side_encryption_kms_key_id'',
      UpdateS3Input.ServerSideEncryption = changed_string modified ''server_side_encryption'',
      UpdateS3Input.ACL = changed_string modified ''acl'' \<rparr>"

definition S3LoggingServiceAttributeHandler_Update ::
  "Client \<Rightarrow> string \<Rightarrow> config \<Rightarrow> config \<Rightarrow> int \<Rightarrow> error option run \<times> request list" where
  "S3LoggingServiceAttributeHandler_Update conn d_Id resource modified serviceVersion =
    (if \<not> S3LoggingServiceAttributeHandler_Update_asserts resource modified then (Panics, [])
     else
       let opts = S3LoggingServiceAttributeHandler_Update_opts d_Id resource modified
                    serviceVersion;
           (res, sent) = UpdateS3 conn opts
       in case res of
            Panics \<Rightarrow> (Panics, sent)
          | Returns (Inl err) \<Rightarrow> (Returns (Some err), sent)
          | Returns (Inr s3) \<Rightarrow> (Returns None, sent))"

text \<open>
  Modelled from the spec: the encoder of the form body is outside the files at hand. The
  fields of \<open>UpdateS3Input\<close> that go into the body carry the tag \<open>url:"<key>,omitempty"\<close>; the
  spec has a field "omitted from the request body (encoded as nil pointer / omitempty)". A
  nil pointer gives no entry, any other pointer the entry of its key, numbers in decimal.
\<close>

definition omitempty :: "string \<Rightarrow> string option \<Rightarrow> (string \<times> string) list" where
  "omitempty k v = (case v of None \<Rightarrow> [] | Some s \<Rightarrow> [(k, s)])"

definition UpdateS3Input_form :: "UpdateS3Input \<Rightarrow> (string \<times> string) list" where
  "UpdateS3Input_form i =
    omitempty ''name'' (UpdateS3Input.NewName i)
    @ omitempty ''bucket_name'' (UpdateS3Input.BucketName i)
    @ omitempty ''domain'' (UpdateS3Input.Domain i)
    @ omitempty ''access_key'' (UpdateS3Input.AccessKey i)
    @ omitempty ''secret_key'' (UpdateS3Input.SecretKey i)
    @ omitempty ''iam_role'' (UpdateS3Input.IAMRole i)
    @ omitempty ''path'' (UpdateS3Input.Path i)
    @ omitempty ''period'' (map_option (\<lambda>w. digits (unat w)) (UpdateS3Input.Period i))
    @ omitempty ''compression_codec'' (UpdateS3Input.CompressionCodec i)
    @ omitempty ''gzip_level'' (map_option (\<lambda>w. digits (unat w)) (UpdateS3Input.GzipLevel i))
    @ omitempty ''format'' (UpdateS3Input.Format i)
    @ omitempty ''format_version''
        (map_option (\<lambda>w. digits (unat w)) (UpdateS3Input.FormatVersion i))
    @ omitempty ''response_condition'' (UpdateS3Input.ResponseCondition i)
    @ omitempty ''message_type'' (UpdateS3Input.MessageType i)
    @ omitempty ''timestamp_format'' (UpdateS3Input.TimestampFormat i)
    @ omitempty ''redundancy'' (UpdateS3Input.Redundancy i)
    @ omitempty ''placement'' (UpdateS3Input.Placement i)
    @ omitempty ''public_key'' (UpdateS3Input.PublicKey i)
    @ omitempty ''server_side_encryption_kms_key_id''
        (UpdateS3Input.ServerSideEncryptionKMSKeyID i)
    @ omitempty ''server_side_encryption'' (UpdateS3Input.ServerSideEncryption i)
    @ omitempty ''acl'' (UpdateS3Input.ACL i)"

text \<open>
  The key of the block's schema that \<open>Update\<close> reads for each key of the form: the three
  credentials carry the prefix \<open>s3_\<close> in the schema, every other key is the same on both sides.
\<close>

definition schema_key :: "string \<Rightarrow> string" where
  "schema_key u =
    (if u = ''access_key'' then ''s3_access_key''
     else if u = ''secret_key'' then ''s3_secret_key''
     else if u = ''iam_role'' then ''s3_iam_role''
     else u)"

definition S3LoggingServiceAttributeHandler_buildDelete ::
  "config \<Rightarrow> string \<Rightarrow> int \<Rightarrow> DeleteS3Input run" where
  "S3LoggingServiceAttributeHandler_buildDelete df serviceID serviceVersion =
    (if is_string (df ''name'') then
       Returns \<lparr> DeleteS3Input.ServiceID = serviceID,
                 DeleteS3Input.ServiceVersion = serviceVersion,
                 DeleteS3Input.Name = the_string (df ''name'') \<rparr>
     else Panics)"

definition deleteS3 :: "Client \<Rightarrow> DeleteS3Input \<Rightarrow> error option \<times> request list" where
  "deleteS3 conn i =
    (let (err, sent) = DeleteS3 conn i
     in case err of
          Some (HTTPErr errRes) \<Rightarrow> if \<not> IsNotFound errRes then (err, sent) else (None, sent)
        | _ \<Rightarrow> (err, sent))"

definition S3LoggingServiceAttributeHandler_Delete ::
  "Client \<Rightarrow> string \<Rightarrow> config \<Rightarrow> int \<Rightarrow> error option run \<times> request list" where
  "S3LoggingServiceAttributeHandler_Delete conn d_Id resource serviceVersion =
    (case S3LoggingServiceAttributeHandler_buildDelete resource d_Id serviceVersion of
       Panics \<Rightarrow> (Panics, [])
     | Returns opts \<Rightarrow> (let (err, sent) = deleteS3 conn opts in (Returns err, sent)))"

definition flattenS3s_one :: "S3 \<Rightarrow> config" where
  "flattenS3s_one s =
    prune_empty
      [ ''name'' \<mapsto> AString (S3.Name s),
        ''bucket_name'' \<mapsto> AString (S3.BucketName s),
        ''s3_access_key'' \<mapsto> AString (S3.AccessKey s),
        ''s3_secret_key'' \<mapsto> AString (S3.SecretKey s),
        ''s3_iam_role'' \<mapsto> AString (S3.IAMRole s),
        ''path'' \<mapsto> AString (S3.Path s),
        ''period'' \<mapsto> AUint (S3.Period s),
        ''domain'' \<mapsto> AString (S3.Domain s),
        ''gzip_level'' \<mapsto> AUint8 (S3.GzipLevel s),
        ''format'' \<mapsto> AString (S3.Format s),
        ''format_version'' \<mapsto> AUint (S3.FormatVersion s),
        ''timestamp_format'' \<mapsto> AString (S3.TimestampFormat s),
        ''redundancy'' \<mapsto> AS3Redundancy (S3.Redundancy s),
        ''response_condition'' \<mapsto> AString (S3.ResponseCondition s),
        ''message_type'' \<mapsto> AString (S3.MessageType s),
        ''public_key'' \<mapsto> AString (S3.PublicKey s),
        ''placement'' \<mapsto> AString (S3.Placement s),
        ''server_side_encryption'' \<mapsto> AS3ServerSideEncryption (S3.ServerSideEncryption s),
        ''server_side_encryption_kms_key_id'' \<mapsto> AString (S3.ServerSideEncryptionKMSKeyID s),
        ''compression_codec'' \<mapsto> AString (S3.CompressionCodec s),
        ''acl'' \<mapsto> AS3AccessControlList (S3.ACL s) ]"

definition flattenS3s :: "S3 list \<Rightarrow> config list" where
  "flattenS3s s3List = map flattenS3s_one s3List"

subsection \<open>Updating a Datadog block\<close>

text \<open>
  \<open>Update\<close> of the Datadog handler: the same statements as in the S3 handler, for the six
  keys of the Datadog block.
\<close>

definition DatadogServiceAttributeHandler_Update_asserts :: "config \<Rightarrow> config \<Rightarrow> bool" where
  "DatadogServiceAttributeHandler_Update_asserts resource modified =
    (is_string (resource ''name'')
     \<and> list_all (\<lambda>k. modified k = None \<or> is_string (modified k))
         [''token'', ''region'', ''format'', ''response_condition'', ''placement'']
     \<and> list_all (\<lambda>k. modified k = None \<or> is_int (modified k)) [''format_version''])"

definition DatadogServiceAttributeHandler_Update_opts ::
  "string \<Rightarrow> config \<Rightarrow> config \<Rightarrow> int \<Rightarrow> UpdateDatadogInput" where
  "DatadogServiceAttributeHandler_Update_opts d_Id resource modified serviceVersion =
    \<lparr> UpdateDatadogInput.ServiceID = d_Id,
      UpdateDatadogInput.ServiceVersion = serviceVersion,
      UpdateDatadogInput.Name = the_string (resource ''name''),
      UpdateDatadogInput.Token = changed_string modified ''token'',
      UpdateDatadogInput.Region = changed_string modified ''region'',
      UpdateDatadogInput.Format = changed_string modified ''format'',
      UpdateDatadogInput.FormatVersion = changed_uint modified ''format_version'',
      UpdateDatadogInput.ResponseCondition = changed_string modified ''response_condition'',
      UpdateDatadogInput.Placement = changed_string modified ''placement'' \<rparr>"

definition DatadogServiceAttributeHandler_Update ::
  "(UpdateDatadogInput \<Rightarrow> (error + Datadog) \<times> request list) \<Rightarrow> string \<Rightarrow> config \<Rightarrow> config
     \<Rightarrow> int \<Rightarrow> error option run \<times> request list" where
  "DatadogServiceAttributeHandler_Update UpdateDatadog d_Id resource modified serviceVersion =
    (if \<not> DatadogServiceAttributeHandler_Update_asserts resource modified then (Panics, [])
     else
       let opts = DatadogServiceAttributeHandler_Update_opts d_Id resource modified
                    serviceVersion;
           (res, sent) = UpdateDatadog opts
       in case res of
            Inl err \<Rightarrow> (Returns (Some err), sent)
          | Inr dd \<Rightarrow> (Returns None, sent))"

text \<open>
  The schema keys of the fields of an \<open>UpdateDatadogInput\<close> whose pointer is not nil, the
  fields that the update sets.
\<close>

definition non_nil :: "string \<Rightarrow> 'a option \<Rightarrow> string list" where
  "non_nil k v = (case v of None \<Rightarrow> [] | Some x \<Rightarrow> [k])"

definition UpdateDatadogInput_set :: "UpdateDatadogInput \<Rightarrow> string list" where
  "UpdateDatadogInput_set i =
    non_nil ''token'' (UpdateDatadogInput.Token i)
    @ non_nil ''region'' (UpdateDatadogInput.Region i)
    @ non_nil ''format'' (UpdateDatadogInput.Format i)
    @ non_nil ''format_version'' (UpdateDatadogInput.FormatVersion i)
    @ non_nil ''response_condition'' (UpdateDatadogInput.ResponseCondition i)
    @ non_nil ''placement'' (UpdateDatadogInput.Placement i)"

subsection \<open>The WAF deployment checker\<close>

text \<open>
  The client's \<open>WAFVersion\<close> with the fields that the checker reads.

  Modelled from the spec: the four deployment statuses are constants of the client, declared
  outside the files at hand; the spec names them pending, in_progress, completed and failed.
\<close>

record WAFVersion =
  Number :: int
  LastDeploymentStatus :: string
  Error :: string

definition WAFVersionDeploymentStatusPending :: string where
  "WAFVersionDeploymentStatusPending = ''pending''"

definition WAFVersionDeploymentStatusInProgress :: string where
  "WAFVersionDeploymentStatusInProgress = ''in_progress''"

definition WAFVersionDeploymentStatusCompleted :: string where
  "WAFVersionDeploymentStatusCompleted = ''completed''"

definition WAFVersionDeploymentStatusFailed :: string where
  "WAFVersionDeploymentStatusFailed = ''failed''"

text \<open>Durations are in nanoseconds, as \<open>time.Duration\<close> is.\<close>

definition WAFStatusCheckDelay :: nat where
  "WAFStatusCheckDelay = 5 * 1000000000"

definition WAFStatusCheckMinTimeout :: nat where
  "WAFStatusCheckMinTimeout = 5 * 1000000000"

text \<open>
  The checker's \<open>Check\<close> asks the remote side, whose answer changes from one call to the next;
  the functions below take the answers of the successive calls as a list instead of the
  field.
\<close>

record WAFDeploymentChecker =
  Timeout :: nat
  Delay :: nat
  MinTimeout :: nat

record StateChangeConf =
  Pending :: "string list"
  Target :: "string list"
  Timeout :: nat
  Delay :: nat
  MinTimeout :: nat
  ContinuousTargetOccurence :: nat
  NotFoundChecks :: nat

text \<open>
  The \<open>Refresh\<close> closure of \<open>waitForDeployment\<close>, applied to the answer of \<open>c.Check\<close>: the
  result, the state and the error it returns.
\<close>

definition waitForDeployment_Refresh ::
  "error + WAFVersion \<Rightarrow> WAFVersion option \<times> string \<times> error option" where
  "waitForDeployment_Refresh answer =
    (case answer of
       Inl err \<Rightarrow> (None, '''', Some err)
     | Inr res \<Rightarrow>
         if WAFVersion.LastDeploymentStatus res = WAFVersionDeploymentStatusFailed
         then (Some res, WAFVersion.LastDeploymentStatus res,
               Some (Errorf (''waf deployment failed. Error message: '' @ WAFVersion.Error res)))
         else (Some res, WAFVersion.LastDeploymentStatus res, None))"

text \<open>
  Modelled from the spec: \<open>WaitForStateContext\<close> belongs to the plugin SDK, outside the files
  at hand. The spec has "a bounded polling loop" that "repeatedly fetches status until it
  reaches a terminal state (completed) or fails (failed, surfacing the remote error message)
  or times out" and "requires several consecutive stable observations of the target state
  before declaring success". Time is not modelled: \<open>answers\<close> holds the answers to the checks
  that the loop makes before the timeout expires, in order, and the loop times out when it has
  used them all. \<open>targetOccurence\<close> counts the consecutive observations of a target state; a
  pending state resets it. The spec is silent on a state that is neither pending nor a target;
  the loop ends with an error there.
\<close>

fun WaitForStateContext ::
  "StateChangeConf \<Rightarrow> (error + WAFVersion \<Rightarrow> WAFVersion option \<times> string \<times> error option)
     \<Rightarrow> nat \<Rightarrow> (error + WAFVersion) list \<Rightarrow> error option" where
  "WaitForStateContext conf refresh targetOccurence [] = Some TimeoutError"
| "WaitForStateContext conf refresh targetOccurence (answer # answers) =
    (case refresh answer of
       (res, currentState, Some err) \<Rightarrow> Some err
     | (res, currentState, None) \<Rightarrow>
         if currentState \<in> set (Target conf) then
           (if ContinuousTargetOccurence conf = Suc targetOccurence then None
            else WaitForStateContext conf refresh (Suc targetOccurence) answers)
         else if currentState \<in> set (Pending conf) then
           WaitForStateContext conf refresh 0 answers
         else Some (UnexpectedStateError currentState))"

text \<open>
  The verb \<open>%v\<close> on an error prints its message: the formatted message of an error built by
  \<open>fmt.Errorf\<close>; \<open>message\<close> gives the message of every other error.
\<close>

definition fmt_v :: "(error \<Rightarrow> string) \<Rightarrow> error \<Rightarrow> string" where
  "fmt_v message err = (case err of Errorf s \<Rightarrow> s | _ \<Rightarrow> message err)"

definition waitForDeployment ::
  "(error \<Rightarrow> string) \<Rightarrow> WAFDeploymentChecker \<Rightarrow> string \<Rightarrow> (error + WAFVersion) list
     \<Rightarrow> error option" where
  "waitForDeployment message c wafID answers =
    (let createStateConf =
           \<lparr> Pending = [WAFVersionDeploymentStatusPending, WAFVersionDeploymentStatusInProgress],
             Target = [WAFVersionDeploymentStatusCompleted],
             StateChangeConf.Timeout = WAFDeploymentChecker.Timeout c,
             StateChangeConf.Delay = WAFDeploymentChecker.Delay c,
             StateChangeConf.MinTimeout = WAFDeploymentChecker.MinTimeout c,
             ContinuousTargetOccurence = 5,
             NotFoundChecks = 1 \<rparr>
     in case WaitForStateContext createStateConf waitForDeployment_Refresh 0 answers of
          Some err \<Rightarrow>
            Some (Errorf (''error waiting for WAF Version ('' @ wafID @ '') to be updated: ''
                          @ fmt_v message err))
        | None \<Rightarrow> None)"

section \<open>The operations of the client, taken together\<close>









section \<open>Notions of the specification\<close>





text \<open>A value is an empty string when it is the empty text in any of the string types.\<close>

fun is_empty_string :: "any \<Rightarrow> bool" where
  "is_empty_string (AString s) = (s = [])"
| "is_empty_string (AS3Redundancy s) = (s = [])"
| "is_empty_string (AS3ServerSideEncryption s) = (s = [])"
| "is_empty_string (AS3AccessControlList s) = (s = [])"
| "is_empty_string _ = False"

text \<open>
  The error that a Delete handler returns for the error of the client's Delete: nil for a 404,
  the error itself otherwise.
\<close>

definition is_404 :: "error \<Rightarrow> bool" where
  "is_404 err = (case err of HTTPErr e \<Rightarrow> StatusCode e = 404 | _ \<Rightarrow> False)"

section \<open>Example values\<close>

definition example_S3 :: "string \<Rightarrow> S3" where
  "example_S3 n =
    \<lparr> S3.ServiceID = ''svc'', S3.ServiceVersion = 1, S3.Name = n,
      S3.BucketName = ''bucket'', S3.Domain = ''s3.amazonaws.com'', S3.AccessKey = ''key'',
      S3.SecretKey = ''secret'', S3.IAMRole = '''', S3.Path = '''', S3.Period = 3600,
      S3.CompressionCodec = '''', S3.GzipLevel = 0, S3.Format = ''%h'', S3.FormatVersion = 2,
      S3.ResponseCondition = '''', S3.MessageType = ''classic'',
      S3.TimestampFormat = ''%Y'', S3.Placement = '''', S3.PublicKey = '''',
      S3.Redundancy = '''', S3.ServerSideEncryptionKMSKeyID = '''',
      S3.ServerSideEncryption = '''', S3.CreatedAt = None, S3.UpdatedAt = None,
      S3.DeletedAt = None, S3.ACL = '''' \<rparr>"

definition example_Header :: "string \<Rightarrow> Header" where
  "example_Header n =
    \<lparr> Header.ServiceID = ''svc'', Header.ServiceVersion = 1, Header.Name = n,
      Header.Action = ''set'', Header.IgnoreIfSet = False, Header.Type = ''request'',
      Header.Destination = ''http.x'', Header.Source = ''client.ip'', Header.Regex = '''',
      Header.Substitution = '''', Header.Priority = 10, Header.RequestCondition = '''',
      Header.CacheCondition = '''', Header.ResponseCondition = '''',
      Header.CreatedAt = None, Header.UpdatedAt = None, Header.DeletedAt = None \<rparr>"

definition example_Gzip :: "string \<Rightarrow> Gzip" where
  "example_Gzip n =
    \<lparr> Gzip.ServiceID = ''svc'', Gzip.ServiceVersion = 1, Gzip.Name = n,
      Gzip.ContentTypes = ''text/html'', Gzip.Extensions = ''html'',
      Gzip.CacheCondition = '''', Gzip.CreatedAt = None, Gzip.UpdatedAt = None,
      Gzip.DeletedAt = None \<rparr>"

definition example_Server :: "string \<Rightarrow> string \<Rightarrow> string \<Rightarrow> Server" where
  "example_Server i a n =
    \<lparr> Server.ServiceID = ''svc'', Server.PoolID = ''pool'', Server.ID = i,
      Server.Address = a, Server.Comment = n, Server.Weight = 100, Server.MaxConn = 0,
      Server.Port = 80, Server.Disabled = False, Server.OverrideHost = n,
      Server.CreatedAt = None, Server.DeletedAt = None, Server.UpdatedAt = None \<rparr>"

text \<open>
  A remote side that answers every request and returns its lists in descending order of name
  (for servers: in ascending order of ID and comment, descending order of address).
\<close>

definition example_Client :: "bool \<Rightarrow> Client" where
  "example_Client status =
    \<lparr> Do = (\<lambda>r. Inr ''{}''),
      PathEscape = (\<lambda>s. s),
      decodeS3s = (\<lambda>b. Inr [example_S3 ''b'', example_S3 ''a'']),
      decodeS3 = (\<lambda>b. Inr (example_S3 ''a'')),
      decodeHeaders = (\<lambda>b. Inr [example_Header ''b'', example_Header ''a'']),
      decodeHeader = (\<lambda>b. Inr (example_Header ''a'')),
      decodeGzips = (\<lambda>b. Inr [example_Gzip ''b'', example_Gzip ''a'']),
      decodeGzip = (\<lambda>b. Inr (example_Gzip ''a'')),
      decodeServers = (\<lambda>b. Inr [example_Server ''id-a'' ''10.0.0.2'' ''a'',
                                 example_Server ''id-b'' ''10.0.0.1'' ''b'']),
      decodeServer = (\<lambda>b. Inr (example_Server ''id-a'' ''10.0.0.2'' ''a'')),
      decodeStatus = (\<lambda>b. Inr \<lparr> ok = status \<rparr>) \<rparr>"

text \<open>A remote side that answers every request with the error \<open>err\<close>.\<close>

definition failing_Client :: "error \<Rightarrow> Client" where
  "failing_Client err = (example_Client True) \<lparr> Do := (\<lambda>r. Inl err) \<rparr>"

text \<open>The configuration of an S3 block with its defaults.\<close>

definition example_config :: config where
  "example_config =
    [ ''name'' \<mapsto> AString ''logger'',
      ''bucket_name'' \<mapsto> AString ''bucket'',
      ''s3_access_key'' \<mapsto> AString ''key'',
      ''s3_secret_key'' \<mapsto> AString ''secret'',
      ''s3_iam_role'' \<mapsto> AString '''',
      ''period'' \<mapsto> AInt 3600,
      ''gzip_level'' \<mapsto> AInt 0,
      ''domain'' \<mapsto> AString ''s3.amazonaws.com'',
      ''path'' \<mapsto> AString '''',
      ''timestamp_format'' \<mapsto> AString ''%Y'',
      ''message_type'' \<mapsto> AString ''classic'',
      ''public_key'' \<mapsto> AString '''',
      ''server_side_encryption_kms_key_id'' \<mapsto> AString '''',
      ''compression_codec'' \<mapsto> AString '''',
      ''redundancy'' \<mapsto> AString ''standard'',
      ''acl'' \<mapsto> AString '''',
      ''server_side_encryption'' \<mapsto> AString ''AES256'' ]"

definition example_vla :: vclLoggingAttributes where
  "example_vla =
    \<lparr> format = ''%h'', formatVersion = Some 2, placement = ''none'',
      responseCondition = '''' \<rparr>"

definition example_uintOrDefault :: "uint option \<Rightarrow> uint" where
  "example_uintOrDefault p = (case p of None \<Rightarrow> 0 | Some n \<Rightarrow> n)"



text \<open>
  The observations of the deployment checker: a version whose deployment is pending or in
  progress, and one whose deployment is completed.
\<close>

definition deployment_pending :: "WAFVersion \<Rightarrow> bool" where
  "deployment_pending v =
    (WAFVersion.LastDeploymentStatus v = WAFVersionDeploymentStatusPending
     \<or> WAFVersion.LastDeploymentStatus v = WAFVersionDeploymentStatusInProgress)"

definition deployment_completed :: "WAFVersion \<Rightarrow> bool" where
  "deployment_completed v =
    (WAFVersion.LastDeploymentStatus v = WAFVersionDeploymentStatusCompleted)"

definition example_WAFVersion :: "string \<Rightarrow> string \<Rightarrow> WAFVersion" where
  "example_WAFVersion status msg =
    \<lparr> Number = 3, LastDeploymentStatus = status, Error = msg \<rparr>"

definition example_checker :: WAFDeploymentChecker where
  "example_checker =
    \<lparr> WAFDeploymentChecker.Timeout = 60 * 1000000000,
      WAFDeploymentChecker.Delay = WAFStatusCheckDelay,
      WAFDeploymentChecker.MinTimeout = WAFStatusCheckMinTimeout \<rparr>"

text \<open>The message of an error that \<open>fmt.Errorf\<close> has not built, for the examples.\<close>

definition example_message :: "error \<Rightarrow> string" where
  "example_message err = (if err = TimeoutError then ''timeout while waiting for state''
                          else ''error'')"



definition example_Datadog_config :: config where
  "example_Datadog_config =
    [ ''name'' \<mapsto> AString ''dd'', ''token'' \<mapsto> AString ''abc123'',
      ''region'' \<mapsto> AString ''US'' ]"


definition example_Datadog :: Datadog where
  "example_Datadog =
    \<lparr> Datadog.Name = ''dd'', Datadog.Token = ''abc123'', Datadog.Region = ''US'',
      Datadog.Format = ''%h'', Datadog.FormatVersion = 2, Datadog.Placement = ''none'',
      Datadog.ResponseCondition = '''' \<rparr>"

text \<open>
  "Completed observed five consecutive times": a run of five completed observations starts at
  the head of the list, or later in it.
\<close>

fun five_completed_in_a_row :: "WAFVersion list \<Rightarrow> bool" where
  "five_completed_in_a_row [] = False"
| "five_completed_in_a_row (v # vs) =
    (5 \<le> length (v # vs) \<and> list_all deployment_completed (take 5 (v # vs))
     \<or> five_completed_in_a_row vs)"

text \<open>
  A client's \<open>UpdateDatadog\<close> that answers with the example Datadog block, for the examples;
  it records no request.
\<close>

definition example_UpdateDatadog ::
  "UpdateDatadogInput \<Rightarrow> (error + Datadog) \<times> request list" where
  "example_UpdateDatadog i = (Inr example_Datadog, [])"

section \<open>Stable sorting\<close>

lemma sink_mset: "mset (sink lt x ys) = add_mset x (mset ys)"
  by (induction ys) auto

lemma sink_set: "set (sink lt x ys) = insert x (set ys)"
  by (induction ys) auto

lemma sink_sorted:
  fixes f :: "'a \<Rightarrow> 'k::linorder"
  assumes "sorted (rev (map f ys))"
  shows "sorted (rev (map f (sink (\<lambda>a b. f a < f b) x ys)))"
  using assms
  by (induction ys) (auto simp: sorted_append sink_set)

lemma foldl_sink_sorted:
  fixes f :: "'a \<Rightarrow> 'k::linorder"
  shows "sorted (rev (map f acc)) \<Longrightarrow>
    sorted (rev (map f (foldl (\<lambda>prefix x. sink (\<lambda>a b. f a < f b) x prefix) acc xs)))"
  by (induction xs arbitrary: acc) (auto simp: sink_sorted)

lemma foldl_sink_mset:
  "mset (foldl (\<lambda>prefix x. sink lt x prefix) acc xs) = mset acc + mset xs"
  by (induction xs arbitrary: acc) (auto simp: sink_mset)

lemma sort_Stable_sorted:
  fixes f :: "'a \<Rightarrow> 'k::linorder"
  shows "sorted (map f (sort_Stable (\<lambda>a b. f a < f b) xs))"
  using foldl_sink_sorted [of f "[]" xs] by (simp add: sort_Stable_def rev_map)

lemma sort_Stable_mset: "mset (sort_Stable lt xs) = mset xs"
  by (simp add: sort_Stable_def foldl_sink_mset)

section \<open>The lists that the client returns\<close>

lemma ListS3s_result:
  "ListS3s c i = (Inr out, sent) \<Longrightarrow>
     \<exists>body xs. length sent = 1 \<and> Do c (hd sent) = Inr body \<and> decodeS3s c body = Inr xs
       \<and> out = sort_Stable s3sByName_Less xs"
  by (auto simp: ListS3s_def Let_def Get_def send_def split: if_splits sum.splits)

lemma ListHeaders_result:
  "ListHeaders c i = (Inr out, sent) \<Longrightarrow>
     \<exists>body xs. length sent = 1 \<and> Do c (hd sent) = Inr body \<and> decodeHeaders c body = Inr xs
       \<and> out = sort_Stable headersByName_Less xs"
  by (auto simp: ListHeaders_def Let_def Get_def send_def split: if_splits sum.splits)

lemma ListGzips_result:
  "ListGzips c i = (Inr out, sent) \<Longrightarrow>
     \<exists>body xs. length sent = 1 \<and> Do c (hd sent) = Inr body \<and> decodeGzips c body = Inr xs
       \<and> out = sort_Stable gzipsByName_Less xs"
  by (auto simp: ListGzips_def Let_def Get_def send_def split: if_splits sum.splits)

lemma ListServers_result:
  "ListServers c i = (Inr out, sent) \<Longrightarrow>
     \<exists>body xs. length sent = 1 \<and> Do c (hd sent) = Inr body \<and> decodeServers c body = Inr xs
       \<and> out = sort_Stable serversByAddress_Less xs"
  by (auto simp: ListServers_def Let_def Get_def send_def split: if_splits sum.splits)

lemma example_ListS3s:
  "ListS3s (example_Client True)
     \<lparr> ListS3sInput.ServiceID = ''svc'', ListS3sInput.ServiceVersion = 1 \<rparr>
   = (Inr [example_S3 ''a'', example_S3 ''b''],
      [Request GET ''/service/svc/version/1/logging/s3'' None])"
  by (simp add: ListS3s_def example_Client_def Get_def send_def fmt_d_def digits.simps
        sort_Stable_def s3sByName_Less_def example_S3_def)

lemma example_ListHeaders:
  "ListHeaders (example_Client True)
     \<lparr> ListHeadersInput.ServiceID = ''svc'', ListHeadersInput.ServiceVersion = 1 \<rparr>
   = (Inr [example_Header ''a'', example_Header ''b''],
      [Request GET ''/service/svc/version/1/header'' None])"
  by (simp add: ListHeaders_def example_Client_def Get_def send_def fmt_d_def digits.simps
        sort_Stable_def headersByName_Less_def example_Header_def)

lemma example_ListGzips:
  "ListGzips (example_Client True)
     \<lparr> ListGzipsInput.ServiceID = ''svc'', ListGzipsInput.ServiceVersion = 1 \<rparr>
   = (Inr [example_Gzip ''a'', example_Gzip ''b''],
      [Request GET ''/service/svc/version/1/gzip'' None])"
  by (simp add: ListGzips_def example_Client_def Get_def send_def fmt_d_def digits.simps
        sort_Stable_def gzipsByName_Less_def example_Gzip_def)

lemma example_ListServers:
  "ListServers (example_Client True)
     \<lparr> ListServersInput.ServiceID = ''svc'', ListServersInput.PoolID = ''pool'' \<rparr>
   = (Inr [example_Server ''id-b'' ''10.0.0.1'' ''b'', example_Server ''id-a'' ''10.0.0.2'' ''a''],
      [Request GET ''/service/svc/pool/pool/servers'' None])"
  by (simp add: ListServers_def example_Client_def Get_def send_def
        sort_Stable_def serversByAddress_Less_def example_Server_def)

text \<open>
  C1 (as amended). Every list that a List function of the client returns is the list decoded
  from the body with which the remote side has answered the one request of the function,
  reordered into ascending order of its sort key, whatever the order of the remote answer:
  the key is the name for S3 loggers, headers and gzips, and the address for servers (a
  server has no name).
\<close>

theorem List_sorted_by_key:
  "(ListS3s c i1 = (Inr s3s, sent1) \<longrightarrow>
      sorted (map S3.Name s3s)
      \<and> (\<exists>body xs. length sent1 = 1 \<and> Do c (hd sent1) = Inr body
            \<and> decodeS3s c body = Inr xs \<and> mset s3s = mset xs))
   \<and> (ListHeaders c i2 = (Inr hs, sent2) \<longrightarrow>
      sorted (map Header.Name hs)
      \<and> (\<exists>body xs. length sent2 = 1 \<and> Do c (hd sent2) = Inr body
            \<and> decodeHeaders c body = Inr xs \<and> mset hs = mset xs))
   \<and> (ListGzips c i3 = (Inr gs, sent3) \<longrightarrow>
      sorted (map Gzip.Name gs)
      \<and> (\<exists>body xs. length sent3 = 1 \<and> Do c (hd sent3) = Inr body
            \<and> decodeGzips c body = Inr xs \<and> mset gs = mset xs))
   \<and> (ListServers c i4 = (Inr ss, sent4) \<longrightarrow>
      sorted (map Server.Address ss)
      \<and> (\<exists>body xs. length sent4 = 1 \<and> Do c (hd sent4) = Inr body
            \<and> decodeServers c body = Inr xs \<and> mset ss = mset xs))"
proof (intro conjI impI)
  assume "ListS3s c i1 = (Inr s3s, sent1)"
  then obtain body xs
    where x: "length sent1 = 1" "Do c (hd sent1) = Inr body" "decodeS3s c body = Inr xs"
      "s3s = sort_Stable s3sByName_Less xs"
    using ListS3s_result by blast
  show "sorted (map S3.Name s3s)"
    using sort_Stable_sorted [of S3.Name xs] x(4) by (simp add: s3sByName_Less_def [abs_def])
  show "\<exists>body xs. length sent1 = 1 \<and> Do c (hd sent1) = Inr body
          \<and> decodeS3s c body = Inr xs \<and> mset s3s = mset xs"
    using x sort_Stable_mset by blast
next
  assume "ListHeaders c i2 = (Inr hs, sent2)"
  then obtain body xs
    where x: "length sent2 = 1" "Do c (hd sent2) = Inr body" "decodeHeaders c body = Inr xs"
      "hs = sort_Stable headersByName_Less xs"
    using ListHeaders_result by blast
  show "sorted (map Header.Name hs)"
    using sort_Stable_sorted [of Header.Name xs] x(4) by (simp add: headersByName_Less_def [abs_def])
  show "\<exists>body xs. length sent2 = 1 \<and> Do c (hd sent2) = Inr body
          \<and> decodeHeaders c body = Inr xs \<and> mset hs = mset xs"
    using x sort_Stable_mset by blast
next
  assume "ListGzips c i3 = (Inr gs, sent3)"
  then obtain body xs
    where x: "length sent3 = 1" "Do c (hd sent3) = Inr body" "decodeGzips c body = Inr xs"
      "gs = sort_Stable gzipsByName_Less xs"
    using ListGzips_result by blast
  show "sorted (map Gzip.Name gs)"
    using sort_Stable_sorted [of Gzip.Name xs] x(4) by (simp add: gzipsByName_Less_def [abs_def])
  show "\<exists>body xs. length sent3 = 1 \<and> Do c (hd sent3) = Inr body
          \<and> decodeGzips c body = Inr xs \<and> mset gs = mset xs"
    using x sort_Stable_mset by blast
next
  assume "ListServers c i4 = (Inr ss, sent4)"
  then obtain body xs
    where x: "length sent4 = 1" "Do c (hd sent4) = Inr body" "decodeServers c body = Inr xs"
      "ss = sort_Stable serversByAddress_Less xs"
    using ListServers_result by blast
  show "sorted (map Server.Address ss)"
    using sort_Stable_sorted [of Server.Address xs] x(4) by (simp add: serversByAddress_Less_def [abs_def])
  show "\<exists>body xs. length sent4 = 1 \<and> Do c (hd sent4) = Inr body
          \<and> decodeServers c body = Inr xs \<and> mset ss = mset xs"
    using x sort_Stable_mset by blast
qed

theorem List_sorted_by_key_witness:
  "ListS3s (example_Client True)
     \<lparr> ListS3sInput.ServiceID = ''svc'', ListS3sInput.ServiceVersion = 1 \<rparr>
     = (Inr [example_S3 ''a'', example_S3 ''b''],
        [Request GET ''/service/svc/version/1/logging/s3'' None])
   \<and> sorted (map S3.Name [example_S3 ''a'', example_S3 ''b''])
   \<and> ListHeaders (example_Client True)
       \<lparr> ListHeadersInput.ServiceID = ''svc'', ListHeadersInput.ServiceVersion = 1 \<rparr>
     = (Inr [example_Header ''a'', example_Header ''b''],
        [Request GET ''/service/svc/version/1/header'' None])
   \<and> sorted (map Header.Name [example_Header ''a'', example_Header ''b''])
   \<and> ListGzips (example_Client True)
       \<lparr> ListGzipsInput.ServiceID = ''svc'', ListGzipsInput.ServiceVersion = 1 \<rparr>
     = (Inr [example_Gzip ''a'', example_Gzip ''b''],
        [Request GET ''/service/svc/version/1/gzip'' None])
   \<and> sorted (map Gzip.Name [example_Gzip ''a'', example_Gzip ''b''])
   \<and> ListServers (example_Client True)
       \<lparr> ListServersInput.ServiceID = ''svc'', ListServersInput.PoolID = ''pool'' \<rparr>
     = (Inr [example_Server ''id-b'' ''10.0.0.1'' ''b'',
             example_Server ''id-a'' ''10.0.0.2'' ''a''],
        [Request GET ''/service/svc/pool/pool/servers'' None])
   \<and> sorted (map Server.Address
        [example_Server ''id-b'' ''10.0.0.1'' ''b'', example_Server ''id-a'' ''10.0.0.2'' ''a''])"
  using
    List_sorted_by_key [of "example_Client True"
      "\<lparr> ListS3sInput.ServiceID = ''svc'', ListS3sInput.ServiceVersion = 1 \<rparr>"
      "[example_S3 ''a'', example_S3 ''b'']"
      "[Request GET ''/service/svc/version/1/logging/s3'' None]"
      "\<lparr> ListHeadersInput.ServiceID = ''svc'', ListHeadersInput.ServiceVersion = 1 \<rparr>"
      "[example_Header ''a'', example_Header ''b'']"
      "[Request GET ''/service/svc/version/1/header'' None]"
      "\<lparr> ListGzipsInput.ServiceID = ''svc'', ListGzipsInput.ServiceVersion = 1 \<rparr>"
      "[example_Gzip ''a'', example_Gzip ''b'']"
      "[Request GET ''/service/svc/version/1/gzip'' None]"
      "\<lparr> ListServersInput.ServiceID = ''svc'', ListServersInput.PoolID = ''pool'' \<rparr>"
      "[example_Server ''id-b'' ''10.0.0.1'' ''b'', example_Server ''id-a'' ''10.0.0.2'' ''a'']"
      "[Request GET ''/service/svc/pool/pool/servers'' None]"]
    example_ListS3s example_ListHeaders example_ListGzips example_ListServers
  by blast

text \<open>
  C1 as stated fails for servers: the list that \<open>ListServers\<close> returns for a remote answer in
  ascending order of ID is in ascending order of address and in descending order of the ID,
  the comment and the override host, the fields of a server that could stand for a name.
\<close>

theorem ListServers_not_sorted_by_name_counterexample:
  "ListServers (example_Client True)
     \<lparr> ListServersInput.ServiceID = ''svc'', ListServersInput.PoolID = ''pool'' \<rparr>
     = (Inr [example_Server ''id-b'' ''10.0.0.1'' ''b'',
             example_Server ''id-a'' ''10.0.0.2'' ''a''],
        [Request GET ''/service/svc/pool/pool/servers'' None])
   \<and> \<not> sorted (map Server.ID
        [example_Server ''id-b'' ''10.0.0.1'' ''b'', example_Server ''id-a'' ''10.0.0.2'' ''a''])
   \<and> \<not> sorted (map Server.Comment
        [example_Server ''id-b'' ''10.0.0.1'' ''b'', example_Server ''id-a'' ''10.0.0.2'' ''a''])
   \<and> \<not> sorted (map Server.OverrideHost
        [example_Server ''id-b'' ''10.0.0.1'' ''b'', example_Server ''id-a'' ''10.0.0.2'' ''a''])"
  using example_ListServers by (simp add: example_Server_def)

section \<open>Updating through the handlers\<close>

lemma keys_omitempty:
  "fst ` set (omitempty k v) = (if v = None then {} else {k})"
  by (cases v) (simp_all add: omitempty_def)

lemma changed_string_None [simp]: "changed_string modified k = None \<longleftrightarrow> modified k = None"
  by (simp add: changed_string_def split: option.splits)

lemma changed_uint_None [simp]: "changed_uint modified k = None \<longleftrightarrow> modified k = None"
  by (simp add: changed_uint_def split: option.splits)

lemma changed_uint8_None [simp]: "changed_uint8 modified k = None \<longleftrightarrow> modified k = None"
  by (simp add: changed_uint8_def split: option.splits)

lemma Update_opts_form_keys:
  "fst ` set (UpdateS3Input_form
      (S3LoggingServiceAttributeHandler_Update_opts d_Id resource modified serviceVersion))
   = (if modified ''bucket_name'' = None then {} else {''bucket_name''})
     \<union> (if modified ''domain'' = None then {} else {''domain''})
     \<union> (if modified ''s3_access_key'' = None then {} else {''access_key''})
     \<union> (if modified ''s3_secret_key'' = None then {} else {''secret_key''})
     \<union> (if modified ''s3_iam_role'' = None then {} else {''iam_role''})
     \<union> (if modified ''path'' = None then {} else {''path''})
     \<union> (if modified ''period'' = None then {} else {''period''})
     \<union> (if modified ''compression_codec'' = None then {} else {''compression_codec''})
     \<union> (if modified ''gzip_level'' = None then {} else {''gzip_level''})
     \<union> (if modified ''format'' = None then {} else {''format''})
     \<union> (if modified ''format_version'' = None then {} else {''format_version''})
     \<union> (if modified ''response_condition'' = None then {} else {''response_condition''})
     \<union> (if modified ''message_type'' = None then {} else {''message_type''})
     \<union> (if modified ''timestamp_format'' = None then {} else {''timestamp_format''})
     \<union> (if modified ''redundancy'' = None then {} else {''redundancy''})
     \<union> (if modified ''placement'' = None then {} else {''placement''})
     \<union> (if modified ''public_key'' = None then {} else {''public_key''})
     \<union> (if modified ''server_side_encryption_kms_key_id'' = None then {}
        else {''server_side_encryption_kms_key_id''})
     \<union> (if modified ''server_side_encryption'' = None then {}
        else {''server_side_encryption''})
     \<union> (if modified ''acl'' = None then {} else {''acl''})"
  unfolding UpdateS3Input_form_def S3LoggingServiceAttributeHandler_Update_opts_def
  by (simp only: set_append image_Un keys_omitempty UpdateS3Input.simps
        changed_string_None changed_uint_None changed_uint8_None
        option.map_disc_iff simp_thms if_True Un_empty_left Un_assoc)

lemma Update_opts_omits:
  assumes "schema_key u \<notin> dom modified"
  shows "u \<notin> fst ` set (UpdateS3Input_form
           (S3LoggingServiceAttributeHandler_Update_opts d_Id resource modified serviceVersion))"
proof
  assume "u \<in> fst ` set (UpdateS3Input_form
           (S3LoggingServiceAttributeHandler_Update_opts d_Id resource modified serviceVersion))"
  then have "schema_key u \<in> dom modified"
    unfolding Update_opts_form_keys
    by (elim UnE; simp add: schema_key_def domIff split: if_splits)
  then show False using assms by simp
qed

lemma UpdateS3_sent:
  "snd (UpdateS3 conn opts) = []
   \<or> (\<exists>p. snd (UpdateS3 conn opts) = [Request PUT p (Some (UpdateS3Form opts))])"
proof (cases "UpdateS3Input.ServiceID opts = [] \<or> UpdateS3Input.ServiceVersion opts = 0
               \<or> UpdateS3Input.Name opts = []")
  case True
  then show ?thesis by (auto simp: UpdateS3_def)
next
  case False
  then show ?thesis
    by (simp add: UpdateS3_def PutForm_def send_def Let_def
          split: run.splits bool.splits sum.splits)
qed

lemma Update_sent:
  assumes "S3LoggingServiceAttributeHandler_Update conn d_Id resource modified serviceVersion
             = (res, sent)"
    and "r \<in> set sent"
  shows "\<exists>p. r = Request PUT p (Some (UpdateS3Form
           (S3LoggingServiceAttributeHandler_Update_opts d_Id resource modified serviceVersion)))"
proof -
  define opts where
    "opts = S3LoggingServiceAttributeHandler_Update_opts d_Id resource modified serviceVersion"
  have "sent = [] \<or> sent = snd (UpdateS3 conn opts)"
  proof (cases "S3LoggingServiceAttributeHandler_Update_asserts resource modified")
    case False
    then show ?thesis
      using assms(1) by (simp add: S3LoggingServiceAttributeHandler_Update_def)
  next
    case True
    obtain r0 s0 where u: "UpdateS3 conn opts = (r0, s0)" by (cases "UpdateS3 conn opts")
    have "sent = s0"
      using assms(1) True u
      by (simp add: S3LoggingServiceAttributeHandler_Update_def Let_def opts_def [symmetric]
            split: run.splits sum.splits)
    then show ?thesis using u by simp
  qed
  then show ?thesis
    using UpdateS3_sent [of conn opts] assms(2) by (auto simp: opts_def)
qed

lemma non_nil_set: "set (non_nil k v) = (if v = None then {} else {k})"
  by (cases v) (simp_all add: non_nil_def)

lemma Datadog_Update_opts_set:
  "set (UpdateDatadogInput_set
      (DatadogServiceAttributeHandler_Update_opts d_Id resource modified serviceVersion))
   = (if modified ''token'' = None then {} else {''token''})
     \<union> (if modified ''region'' = None then {} else {''region''})
     \<union> (if modified ''format'' = None then {} else {''format''})
     \<union> (if modified ''format_version'' = None then {} else {''format_version''})
     \<union> (if modified ''response_condition'' = None then {} else {''response_condition''})
     \<union> (if modified ''placement'' = None then {} else {''placement''})"
  unfolding UpdateDatadogInput_set_def DatadogServiceAttributeHandler_Update_opts_def
  by (simp only: set_append non_nil_set UpdateDatadogInput.simps
        changed_string_None changed_uint_None Un_assoc)

lemma Datadog_Update_opts_omits:
  assumes "k \<notin> dom modified"
  shows "k \<notin> set (UpdateDatadogInput_set
           (DatadogServiceAttributeHandler_Update_opts d_Id resource modified serviceVersion))"
proof
  assume "k \<in> set (UpdateDatadogInput_set
           (DatadogServiceAttributeHandler_Update_opts d_Id resource modified serviceVersion))"
  then have "k \<in> dom modified"
    unfolding Datadog_Update_opts_set
    by (elim UnE; simp add: domIff split: if_splits)
  then show False using assms by simp
qed

lemma Datadog_Update_sent:
  assumes "DatadogServiceAttributeHandler_Update UpdateDatadog d_Id resource modified
             serviceVersion = (res, sent)"
    and "res \<noteq> Panics"
  shows "sent = snd (UpdateDatadog
           (DatadogServiceAttributeHandler_Update_opts d_Id resource modified serviceVersion))"
proof -
  define opts where
    "opts = DatadogServiceAttributeHandler_Update_opts d_Id resource modified serviceVersion"
  obtain r0 s0 where u: "UpdateDatadog opts = (r0, s0)" by (cases "UpdateDatadog opts")
  have a: "DatadogServiceAttributeHandler_Update_asserts resource modified"
  proof (rule ccontr)
    assume "\<not> DatadogServiceAttributeHandler_Update_asserts resource modified"
    then have "res = Panics"
      using assms(1) by (simp add: DatadogServiceAttributeHandler_Update_def)
    then show False using assms(2) by simp
  qed
  have "sent = s0"
    using assms(1) a u
    by (simp add: DatadogServiceAttributeHandler_Update_def Let_def opts_def [symmetric]
          split: sum.splits)
  then show ?thesis using u by (simp add: opts_def)
qed

text \<open>
  C2. Every request that the \<open>Update\<close> of the S3 handler sends is a PUT whose form body is
  the \<open>UpdateS3Input\<close> that the handler has built, and the body holds no entry for a field
  whose schema key is absent from the set of changed fields \<open>modified\<close>: the pointer of such a
  field is nil and the field is left out of the body, so that the remote side receives no
  value for it. The \<open>Update\<close> of the Datadog handler, when it does not panic, sends what the
  client's \<open>UpdateDatadog\<close> sends for the \<open>UpdateDatadogInput\<close> that the handler has built, in
  which the pointer of every field whose schema key is absent from \<open>modified\<close> is nil.
\<close>

theorem Update_omits_unchanged_fields:
  "(S3LoggingServiceAttributeHandler_Update conn d_Id resource modified serviceVersion
      = (res, sent) \<and> r \<in> set sent
    \<longrightarrow> (\<exists>p body. r = Request PUT p (Some (UpdateS3Form body))
           \<and> (\<forall>u. schema_key u \<notin> dom modified
                  \<longrightarrow> u \<notin> fst ` set (UpdateS3Input_form body))))
   \<and> (DatadogServiceAttributeHandler_Update UpdateDatadog d_Id resource modified
        serviceVersion = (resD, sentD) \<and> resD \<noteq> Panics
    \<longrightarrow> sentD = snd (UpdateDatadog (DatadogServiceAttributeHandler_Update_opts d_Id resource
                      modified serviceVersion))
        \<and> (\<forall>k. k \<notin> dom modified
              \<longrightarrow> k \<notin> set (UpdateDatadogInput_set
                    (DatadogServiceAttributeHandler_Update_opts d_Id resource modified
                       serviceVersion))))"
proof -
  have a: "S3LoggingServiceAttributeHandler_Update conn d_Id resource modified serviceVersion
      = (res, sent) \<and> r \<in> set sent
    \<longrightarrow> (\<exists>p body. r = Request PUT p (Some (UpdateS3Form body))
           \<and> (\<forall>u. schema_key u \<notin> dom modified
                  \<longrightarrow> u \<notin> fst ` set (UpdateS3Input_form body)))"
  proof (rule impI)
    assume h: "S3LoggingServiceAttributeHandler_Update conn d_Id resource modified
                 serviceVersion = (res, sent) \<and> r \<in> set sent"
    show "\<exists>p body. r = Request PUT p (Some (UpdateS3Form body))
           \<and> (\<forall>u. schema_key u \<notin> dom modified
                  \<longrightarrow> u \<notin> fst ` set (UpdateS3Input_form body))"
      using Update_sent [OF conjunct1 [OF h] conjunct2 [OF h]] Update_opts_omits by blast
  qed
  have b: "DatadogServiceAttributeHandler_Update UpdateDatadog d_Id resource modified
        serviceVersion = (resD, sentD) \<and> resD \<noteq> Panics
    \<longrightarrow> sentD = snd (UpdateDatadog (DatadogServiceAttributeHandler_Update_opts d_Id resource
                      modified serviceVersion))
        \<and> (\<forall>k. k \<notin> dom modified
              \<longrightarrow> k \<notin> set (UpdateDatadogInput_set
                    (DatadogServiceAttributeHandler_Update_opts d_Id resource modified
                       serviceVersion)))"
  proof (rule impI)
    assume h: "DatadogServiceAttributeHandler_Update UpdateDatadog d_Id resource modified
        serviceVersion = (resD, sentD) \<and> resD \<noteq> Panics"
    show "sentD = snd (UpdateDatadog (DatadogServiceAttributeHandler_Update_opts d_Id resource
                      modified serviceVersion))
        \<and> (\<forall>k. k \<notin> dom modified
              \<longrightarrow> k \<notin> set (UpdateDatadogInput_set
                    (DatadogServiceAttributeHandler_Update_opts d_Id resource modified
                       serviceVersion)))"
      using Datadog_Update_sent [OF conjunct1 [OF h] conjunct2 [OF h]]
        Datadog_Update_opts_omits by blast
  qed
  show ?thesis
    by (intro conjI a b)
qed

lemma example_Update:
  "S3LoggingServiceAttributeHandler_Update (example_Client True) ''svc'' example_config
     [''period'' \<mapsto> AInt 7200] 2
   = (Returns None,
      [Request PUT ''/service/svc/version/2/logging/s3/logger''
         (Some (UpdateS3Form (S3LoggingServiceAttributeHandler_Update_opts ''svc''
            example_config [''period'' \<mapsto> AInt 7200] 2)))])"
  by (simp add: S3LoggingServiceAttributeHandler_Update_def
        S3LoggingServiceAttributeHandler_Update_asserts_def
        S3LoggingServiceAttributeHandler_Update_opts_def UpdateS3_def
        UpdateS3_missing_kms_key_id_def changed_string_def changed_uint_def changed_uint8_def
        example_config_def example_Client_def PutForm_def send_def fmt_d_def digits.simps)

lemma example_Update_form:
  "UpdateS3Input_form (S3LoggingServiceAttributeHandler_Update_opts ''svc''
      example_config [''period'' \<mapsto> AInt 7200] 2) = [(''period'', ''7200'')]"
  by (simp add: UpdateS3Input_form_def S3LoggingServiceAttributeHandler_Update_opts_def
        changed_string_def changed_uint_def changed_uint8_def omitempty_def digits.simps)

lemma example_Datadog_Update:
  "DatadogServiceAttributeHandler_Update example_UpdateDatadog ''svc'' example_Datadog_config
     [''token'' \<mapsto> AString ''t2''] 2 = (Returns None, [])"
  by (simp add: DatadogServiceAttributeHandler_Update_def
        DatadogServiceAttributeHandler_Update_asserts_def example_UpdateDatadog_def
        example_Datadog_config_def)

lemma example_Datadog_Update_set:
  "UpdateDatadogInput_set (DatadogServiceAttributeHandler_Update_opts ''svc''
      example_Datadog_config [''token'' \<mapsto> AString ''t2''] 2) = [''token'']"
  by (simp add: UpdateDatadogInput_set_def DatadogServiceAttributeHandler_Update_opts_def
        changed_string_def changed_uint_def non_nil_def)

theorem Update_omits_unchanged_fields_witness:
  "S3LoggingServiceAttributeHandler_Update (example_Client True) ''svc'' example_config
     [''period'' \<mapsto> AInt 7200] 2
   = (Returns None,
      [Request PUT ''/service/svc/version/2/logging/s3/logger''
         (Some (UpdateS3Form (S3LoggingServiceAttributeHandler_Update_opts ''svc''
            example_config [''period'' \<mapsto> AInt 7200] 2)))])
   \<and> UpdateS3Input_form (S3LoggingServiceAttributeHandler_Update_opts ''svc''
        example_config [''period'' \<mapsto> AInt 7200] 2) = [(''period'', ''7200'')]
   \<and> ''bucket_name'' \<notin> fst ` set (UpdateS3Input_form
        (S3LoggingServiceAttributeHandler_Update_opts ''svc'' example_config
           [''period'' \<mapsto> AInt 7200] 2))
   \<and> DatadogServiceAttributeHandler_Update example_UpdateDatadog ''svc''
        example_Datadog_config [''token'' \<mapsto> AString ''t2''] 2 = (Returns None, [])
   \<and> UpdateDatadogInput_set (DatadogServiceAttributeHandler_Update_opts ''svc''
        example_Datadog_config [''token'' \<mapsto> AString ''t2''] 2) = [''token'']
   \<and> ''region'' \<notin> set (UpdateDatadogInput_set
        (DatadogServiceAttributeHandler_Update_opts ''svc'' example_Datadog_config
           [''token'' \<mapsto> AString ''t2''] 2))"
proof -
  have mem: "Request PUT ''/service/svc/version/2/logging/s3/logger''
         (Some (UpdateS3Form (S3LoggingServiceAttributeHandler_Update_opts ''svc''
            example_config [''period'' \<mapsto> AInt 7200] 2)))
        \<in> set [Request PUT ''/service/svc/version/2/logging/s3/logger''
         (Some (UpdateS3Form (S3LoggingServiceAttributeHandler_Update_opts ''svc''
            example_config [''period'' \<mapsto> AInt 7200] 2)))]"
    by simp
  from Update_omits_unchanged_fields [THEN conjunct1, THEN mp,
      OF conjI [OF example_Update mem]]
  obtain p body where
    b: "Request PUT ''/service/svc/version/2/logging/s3/logger''
         (Some (UpdateS3Form (S3LoggingServiceAttributeHandler_Update_opts ''svc''
            example_config [''period'' \<mapsto> AInt 7200] 2)))
        = Request PUT p (Some (UpdateS3Form body))"
    and o: "\<forall>u. schema_key u \<notin> dom [''period'' \<mapsto> AInt 7200]
              \<longrightarrow> u \<notin> fst ` set (UpdateS3Input_form body)"
    by blast
  have "schema_key ''bucket_name'' \<notin> dom [''period'' \<mapsto> AInt 7200]"
    by (simp add: schema_key_def)
  then have "''bucket_name'' \<notin> fst ` set (UpdateS3Input_form body)"
    using o by blast
  moreover have "body = S3LoggingServiceAttributeHandler_Update_opts ''svc''
            example_config [''period'' \<mapsto> AInt 7200] 2"
    using b by simp
  ultimately have s3: "''bucket_name'' \<notin> fst ` set (UpdateS3Input_form
        (S3LoggingServiceAttributeHandler_Update_opts ''svc'' example_config
           [''period'' \<mapsto> AInt 7200] 2))"
    by simp
  have ne: "Returns (None :: error option) \<noteq> Panics" by simp
  have d: "\<forall>k. k \<notin> dom [''token'' \<mapsto> AString ''t2'']
              \<longrightarrow> k \<notin> set (UpdateDatadogInput_set
                    (DatadogServiceAttributeHandler_Update_opts ''svc''
                       example_Datadog_config [''token'' \<mapsto> AString ''t2''] 2))"
    using Update_omits_unchanged_fields [THEN conjunct2, THEN mp,
      OF conjI [OF example_Datadog_Update ne]]
    by (rule conjunct2)
  have "''region'' \<notin> dom [''token'' \<mapsto> AString ''t2'']" by simp
  then have dd: "''region'' \<notin> set (UpdateDatadogInput_set
        (DatadogServiceAttributeHandler_Update_opts ''svc'' example_Datadog_config
           [''token'' \<mapsto> AString ''t2''] 2))"
    using d by blast
  show ?thesis
    by (intro conjI example_Update example_Update_form s3 example_Datadog_Update
          example_Datadog_Update_set dd)
qed

section \<open>Deleting through a handler\<close>

lemma deleteS3_remote_error:
  assumes "DeleteS3Input.ServiceID i \<noteq> ''''" "DeleteS3Input.ServiceVersion i \<noteq> 0"
    "DeleteS3Input.Name i \<noteq> ''''"
    "Do conn (Request DELETE (''/service/'' @ DeleteS3Input.ServiceID i @ ''/version/''
                    @ fmt_d (DeleteS3Input.ServiceVersion i) @ ''/logging/s3/''
                    @ PathEscape conn (DeleteS3Input.Name i)) None) = Inl err"
  shows "deleteS3 conn i =
     (if is_404 err then None else Some err,
      [Request DELETE (''/service/'' @ DeleteS3Input.ServiceID i @ ''/version/''
                    @ fmt_d (DeleteS3Input.ServiceVersion i) @ ''/logging/s3/''
                    @ PathEscape conn (DeleteS3Input.Name i)) None])"
  using assms
  by (simp add: deleteS3_def DeleteS3_def Delete_def send_def is_404_def IsNotFound_def
        split: error.splits)

text \<open>
  C3. Deleting a nested resource through its handler: when the remote side answers the
  delete request of an S3 logger with an error, the handler's Delete returns nil if the error
  is an HTTP error with status 404, and returns that very error otherwise (an HTTP error with
  another status, or an error that is no HTTP error). The Datadog handler treats the error
  that the client's \<open>DeleteDatadog\<close> returns in the same way.
\<close>

theorem Delete_swallows_404_only:
  "(is_string (resource ''name'') \<and> d_Id \<noteq> '''' \<and> serviceVersion \<noteq> 0
      \<and> the_string (resource ''name'') \<noteq> ''''
      \<and> Do conn (Request DELETE (''/service/'' @ d_Id @ ''/version/'' @ fmt_d serviceVersion
             @ ''/logging/s3/'' @ PathEscape conn (the_string (resource ''name''))) None)
          = Inl err
    \<longrightarrow> S3LoggingServiceAttributeHandler_Delete conn d_Id resource serviceVersion
          = (Returns (if is_404 err then None else Some err),
             [Request DELETE (''/service/'' @ d_Id @ ''/version/'' @ fmt_d serviceVersion
               @ ''/logging/s3/'' @ PathEscape conn (the_string (resource ''name''))) None]))
   \<and> (is_string (resource ''name'')
      \<and> DeleteDatadog \<lparr> DeleteDatadogInput.ServiceID = d_Id,
            DeleteDatadogInput.ServiceVersion = serviceVersion,
            DeleteDatadogInput.Name = the_string (resource ''name'') \<rparr> = (Some err, sent)
    \<longrightarrow> DatadogServiceAttributeHandler_Delete DeleteDatadog d_Id resource serviceVersion
          = (Returns (if is_404 err then None else Some err), sent))"
  by (auto simp: S3LoggingServiceAttributeHandler_Delete_def
        S3LoggingServiceAttributeHandler_buildDelete_def deleteS3_remote_error
        DatadogServiceAttributeHandler_Delete_def DatadogServiceAttributeHandler_buildDelete_def
        deleteDatadog_def is_404_def IsNotFound_def split: error.splits)

theorem Delete_swallows_404_only_witness:
  "S3LoggingServiceAttributeHandler_Delete
     (failing_Client (HTTPErr \<lparr> StatusCode = 404, Message = ''Not Found'' \<rparr>))
     ''svc'' [''name'' \<mapsto> AString ''logger''] 1
     = (Returns None, [Request DELETE ''/service/svc/version/1/logging/s3/logger'' None])
   \<and> S3LoggingServiceAttributeHandler_Delete
     (failing_Client (HTTPErr \<lparr> StatusCode = 500, Message = ''Internal Server Error'' \<rparr>))
     ''svc'' [''name'' \<mapsto> AString ''logger''] 1
     = (Returns (Some (HTTPErr \<lparr> StatusCode = 500, Message = ''Internal Server Error'' \<rparr>)),
        [Request DELETE ''/service/svc/version/1/logging/s3/logger'' None])
   \<and> S3LoggingServiceAttributeHandler_Delete
     (failing_Client (OtherError ''connection refused''))
     ''svc'' [''name'' \<mapsto> AString ''logger''] 1
     = (Returns (Some (OtherError ''connection refused'')),
        [Request DELETE ''/service/svc/version/1/logging/s3/logger'' None])
   \<and> DatadogServiceAttributeHandler_Delete
     (\<lambda>i. (Some (HTTPErr \<lparr> StatusCode = 404, Message = ''Not Found'' \<rparr>),
            [Request DELETE ''/service/svc/version/1/logging/datadog/dd'' None]))
     ''svc'' [''name'' \<mapsto> AString ''dd''] 1
     = (Returns None, [Request DELETE ''/service/svc/version/1/logging/datadog/dd'' None])
   \<and> DatadogServiceAttributeHandler_Delete
     (\<lambda>i. (Some (HTTPErr \<lparr> StatusCode = 403, Message = ''Forbidden'' \<rparr>),
            [Request DELETE ''/service/svc/version/1/logging/datadog/dd'' None]))
     ''svc'' [''name'' \<mapsto> AString ''dd''] 1
     = (Returns (Some (HTTPErr \<lparr> StatusCode = 403, Message = ''Forbidden'' \<rparr>)),
        [Request DELETE ''/service/svc/version/1/logging/datadog/dd'' None])"
  using
    Delete_swallows_404_only [of "[''name'' \<mapsto> AString ''logger'']" "''svc''" 1
      "failing_Client (HTTPErr \<lparr> StatusCode = 404, Message = ''Not Found'' \<rparr>)"
      "HTTPErr \<lparr> StatusCode = 404, Message = ''Not Found'' \<rparr>"]
    Delete_swallows_404_only [of "[''name'' \<mapsto> AString ''logger'']" "''svc''" 1
      "failing_Client (HTTPErr \<lparr> StatusCode = 500, Message = ''Internal Server Error'' \<rparr>)"
      "HTTPErr \<lparr> StatusCode = 500, Message = ''Internal Server Error'' \<rparr>"]
    Delete_swallows_404_only [of "[''name'' \<mapsto> AString ''logger'']" "''svc''" 1
      "failing_Client (OtherError ''connection refused'')" "OtherError ''connection refused''"]
    Delete_swallows_404_only [of "[''name'' \<mapsto> AString ''dd'']" "''svc''" 1 _ _
      "\<lambda>i. (Some (HTTPErr \<lparr> StatusCode = 404, Message = ''Not Found'' \<rparr>),
            [Request DELETE ''/service/svc/version/1/logging/datadog/dd'' None])"
      "[Request DELETE ''/service/svc/version/1/logging/datadog/dd'' None]"]
    Delete_swallows_404_only [of "[''name'' \<mapsto> AString ''dd'']" "''svc''" 1 _ _
      "\<lambda>i. (Some (HTTPErr \<lparr> StatusCode = 403, Message = ''Forbidden'' \<rparr>),
            [Request DELETE ''/service/svc/version/1/logging/datadog/dd'' None])"
      "[Request DELETE ''/service/svc/version/1/logging/datadog/dd'' None]"]
  by (simp add: failing_Client_def example_Client_def fmt_d_def digits.simps is_404_def)

section \<open>Waiting for a WAF deployment\<close>

lemma Refresh_pending:
  "deployment_pending v \<Longrightarrow>
     waitForDeployment_Refresh (Inr v) = (Some v, WAFVersion.LastDeploymentStatus v, None)"
  by (auto simp: waitForDeployment_Refresh_def deployment_pending_def
        WAFVersionDeploymentStatusPending_def WAFVersionDeploymentStatusInProgress_def
        WAFVersionDeploymentStatusFailed_def)

lemma Refresh_completed:
  "deployment_completed v \<Longrightarrow>
     waitForDeployment_Refresh (Inr v) = (Some v, WAFVersionDeploymentStatusCompleted, None)"
  by (auto simp: waitForDeployment_Refresh_def deployment_completed_def
        WAFVersionDeploymentStatusCompleted_def WAFVersionDeploymentStatusFailed_def)

lemma Refresh_failed:
  "WAFVersion.LastDeploymentStatus v = WAFVersionDeploymentStatusFailed \<Longrightarrow>
     waitForDeployment_Refresh (Inr v)
       = (Some v, WAFVersionDeploymentStatusFailed,
          Some (Errorf (''waf deployment failed. Error message: '' @ WAFVersion.Error v)))"
  by (simp add: waitForDeployment_Refresh_def)

lemma Wait_pending:
  assumes "Pending conf = [WAFVersionDeploymentStatusPending, WAFVersionDeploymentStatusInProgress]"
    and "Target conf = [WAFVersionDeploymentStatusCompleted]"
    and "list_all deployment_pending ps"
  shows "WaitForStateContext conf waitForDeployment_Refresh n (map Inr ps @ rest)
         = WaitForStateContext conf waitForDeployment_Refresh (if ps = [] then n else 0) rest"
  using assms(3)
proof (induction ps arbitrary: n)
  case Nil
  then show ?case by simp
next
  case (Cons p ps)
  have p: "deployment_pending p" and ps: "list_all deployment_pending ps"
    using Cons.prems by simp_all
  have "WaitForStateContext conf waitForDeployment_Refresh n (map Inr (p # ps) @ rest)
        = WaitForStateContext conf waitForDeployment_Refresh 0 (map Inr ps @ rest)"
    using p assms(1,2)
    by (auto simp: Refresh_pending deployment_pending_def
          WAFVersionDeploymentStatusPending_def WAFVersionDeploymentStatusInProgress_def
          WAFVersionDeploymentStatusCompleted_def)
  then show ?case
    using Cons.IH [OF ps, of 0] by simp
qed

lemma Wait_completed_enough:
  assumes "Target conf = [WAFVersionDeploymentStatusCompleted]"
    and "ContinuousTargetOccurence conf = 5"
    and "list_all deployment_completed cs"
    and "n < 5" and "5 \<le> n + length cs"
  shows "WaitForStateContext conf waitForDeployment_Refresh n (map Inr cs @ rest) = None"
  using assms(3,4,5)
proof (induction cs arbitrary: n)
  case Nil
  then show ?case by simp
next
  case (Cons c cs)
  have c: "deployment_completed c" and cs: "list_all deployment_completed cs"
    using Cons.prems(1) by simp_all
  show ?case
  proof (cases "Suc n = 5")
    case True
    then show ?thesis
      using c assms(1,2) by (simp add: Refresh_completed)
  next
    case False
    then have "WaitForStateContext conf waitForDeployment_Refresh n (map Inr (c # cs) @ rest)
        = WaitForStateContext conf waitForDeployment_Refresh (Suc n) (map Inr cs @ rest)"
      using c assms(1,2) by (simp add: Refresh_completed)
    then show ?thesis
      using Cons.IH [OF cs, of "Suc n"] Cons.prems(2,3) False by simp
  qed
qed

lemma Wait_failed:
  assumes "WAFVersion.LastDeploymentStatus f = WAFVersionDeploymentStatusFailed"
  shows "WaitForStateContext conf waitForDeployment_Refresh n (Inr f # rest)
         = Some (Errorf (''waf deployment failed. Error message: '' @ WAFVersion.Error f))"
  using assms by (simp add: Refresh_failed)

lemma Wait_step_completed:
  assumes "Target conf = [WAFVersionDeploymentStatusCompleted]"
    and "ContinuousTargetOccurence conf = 5"
    and "deployment_completed v"
  shows "WaitForStateContext conf waitForDeployment_Refresh n (Inr v # xs)
         = (if Suc n = 5 then None
            else WaitForStateContext conf waitForDeployment_Refresh (Suc n) xs)"
  using assms by (simp add: Refresh_completed)

lemma Wait_step_pending:
  assumes "Pending conf = [WAFVersionDeploymentStatusPending, WAFVersionDeploymentStatusInProgress]"
    and "Target conf = [WAFVersionDeploymentStatusCompleted]"
    and "deployment_pending v"
  shows "WaitForStateContext conf waitForDeployment_Refresh n (Inr v # xs)
         = WaitForStateContext conf waitForDeployment_Refresh 0 xs"
  using Wait_pending [OF assms(1,2), of "[v]" n xs] assms(3) by simp

lemma run_at_head:
  "5 \<le> length vs \<and> list_all deployment_completed (take 5 vs) \<Longrightarrow> five_completed_in_a_row vs"
  by (cases vs) simp_all

lemma Wait_general:
  assumes P: "Pending conf = [WAFVersionDeploymentStatusPending, WAFVersionDeploymentStatusInProgress]"
    and T: "Target conf = [WAFVersionDeploymentStatusCompleted]"
    and O: "ContinuousTargetOccurence conf = 5"
    and "list_all (\<lambda>v. deployment_pending v \<or> deployment_completed v) vs"
    and "n < 5"
  shows "if 5 - n \<le> length vs \<and> list_all deployment_completed (take (5 - n) vs)
            \<or> five_completed_in_a_row vs
         then WaitForStateContext conf waitForDeployment_Refresh n (map Inr vs @ rest) = None
         else \<exists>m<5. WaitForStateContext conf waitForDeployment_Refresh n (map Inr vs @ rest)
                = WaitForStateContext conf waitForDeployment_Refresh m rest"
  using assms(4,5)
proof (induction vs arbitrary: n)
  case Nil
  then show ?case by auto
next
  case (Cons v vs)
  have vs: "list_all (\<lambda>v. deployment_pending v \<or> deployment_completed v) vs"
    using Cons.prems(1) by simp
  show ?case
  proof (cases "deployment_completed v")
    case True
    have step: "WaitForStateContext conf waitForDeployment_Refresh n (map Inr (v # vs) @ rest)
            = (if Suc n = 5 then None
               else WaitForStateContext conf waitForDeployment_Refresh (Suc n)
                      (map Inr vs @ rest))"
      by (simp only: list.map append_Cons Wait_step_completed [OF T O True])
    show ?thesis
    proof (cases "Suc n = 5")
      case True
      then have "5 - n = 1" by simp
      then have "5 - n \<le> length (v # vs)
                  \<and> list_all deployment_completed (take (5 - n) (v # vs))"
        using \<open>deployment_completed v\<close> by simp
      moreover have "WaitForStateContext conf waitForDeployment_Refresh n
                       (map Inr (v # vs) @ rest) = None"
        using step True by (simp only: if_True simp_thms)
      ultimately show ?thesis by (simp only: simp_thms if_True)
    next
      case False
      then have n: "Suc n < 5" using Cons.prems(2) by simp
      have s: "5 - n = Suc (5 - Suc n)" using n by simp
      have eq: "(5 - n \<le> length (v # vs)
                  \<and> list_all deployment_completed (take (5 - n) (v # vs))
                 \<or> five_completed_in_a_row (v # vs))
                \<longleftrightarrow> (5 - Suc n \<le> length vs
                  \<and> list_all deployment_completed (take (5 - Suc n) vs)
                 \<or> five_completed_in_a_row vs)"
      proof -
        have a: "5 - n \<le> length (v # vs)
                  \<and> list_all deployment_completed (take (5 - n) (v # vs))
              \<longleftrightarrow> 5 - Suc n \<le> length vs
                  \<and> list_all deployment_completed (take (5 - Suc n) vs)"
          using True by (simp add: s)
        have b: "5 \<le> length (v # vs) \<and> list_all deployment_completed (take 5 (v # vs))
              \<Longrightarrow> 5 - Suc n \<le> length vs
                  \<and> list_all deployment_completed (take (5 - Suc n) vs)"
        proof -
          assume h: "5 \<le> length (v # vs) \<and> list_all deployment_completed (take 5 (v # vs))"
          have "take 5 (v # vs) = v # take 4 vs" by (simp add: numeral_eq_Suc)
          then have c4: "list_all deployment_completed (take 4 vs)" using h by simp
          have "take (5 - Suc n) vs = take (5 - Suc n) (take 4 vs)"
            by (simp add: min_def)
          then have "list_all deployment_completed (take (5 - Suc n) vs)"
            using c4 by (metis append_take_drop_id list_all_append)
          moreover have "4 \<le> length vs" using h by simp
          then have "5 - Suc n \<le> length vs" by arith
          ultimately show ?thesis by simp
        qed
        show ?thesis
          unfolding a using b by auto
      qed
      have "WaitForStateContext conf waitForDeployment_Refresh n (map Inr (v # vs) @ rest)
            = WaitForStateContext conf waitForDeployment_Refresh (Suc n) (map Inr vs @ rest)"
        using step False by (simp only: if_False simp_thms)
      then show ?thesis
        unfolding eq using Cons.IH [OF vs n] by (simp only:)
    qed
  next
    case False
    then have p: "deployment_pending v" using Cons.prems(1) by simp
    have pos: "5 - n = Suc (4 - n)" using Cons.prems(2) by simp
    have z: "(0::nat) < 5" by simp
    have eq: "(5 - n \<le> length (v # vs)
                  \<and> list_all deployment_completed (take (5 - n) (v # vs))
                 \<or> five_completed_in_a_row (v # vs))
                \<longleftrightarrow> (5 - 0 \<le> length vs
                  \<and> list_all deployment_completed (take (5 - 0) vs)
                 \<or> five_completed_in_a_row vs)"
    proof -
      have a1: "\<not> (5 - n \<le> length (v # vs)
                  \<and> list_all deployment_completed (take (5 - n) (v # vs)))"
        using False by (simp add: pos)
      have "take 5 (v # vs) = v # take 4 vs" by (simp add: numeral_eq_Suc)
      then have a2: "five_completed_in_a_row (v # vs) \<longleftrightarrow> five_completed_in_a_row vs"
        using False by simp
      have a3: "(5 - 0 \<le> length vs \<and> list_all deployment_completed (take (5 - 0) vs)
                 \<or> five_completed_in_a_row vs) \<longleftrightarrow> five_completed_in_a_row vs"
        using run_at_head [of vs] by auto
      show ?thesis
        using a1 a2 a3 by blast
    qed
    have "WaitForStateContext conf waitForDeployment_Refresh n (map Inr (v # vs) @ rest)
            = WaitForStateContext conf waitForDeployment_Refresh 0 (map Inr vs @ rest)"
      by (simp only: list.map append_Cons Wait_step_pending [OF P T p])
    then show ?thesis
      unfolding eq using Cons.IH [OF vs z] by (simp only:)
  qed
qed

lemma Wait_five:
  assumes "Pending conf = [WAFVersionDeploymentStatusPending, WAFVersionDeploymentStatusInProgress]"
    and "Target conf = [WAFVersionDeploymentStatusCompleted]"
    and "ContinuousTargetOccurence conf = 5"
    and "list_all (\<lambda>v. deployment_pending v \<or> deployment_completed v) vs"
    and "five_completed_in_a_row vs"
  shows "WaitForStateContext conf waitForDeployment_Refresh 0 (map Inr vs @ rest) = None"
proof -
  have z: "(0::nat) < 5" by simp
  show ?thesis
    using Wait_general [OF assms(1-4) z, of rest] assms(5) by (simp only: simp_thms if_True)
qed

lemma Wait_no_five:
  assumes "Pending conf = [WAFVersionDeploymentStatusPending, WAFVersionDeploymentStatusInProgress]"
    and "Target conf = [WAFVersionDeploymentStatusCompleted]"
    and "ContinuousTargetOccurence conf = 5"
    and "list_all (\<lambda>v. deployment_pending v \<or> deployment_completed v) vs"
    and "\<not> five_completed_in_a_row vs"
  shows "\<exists>m<5. WaitForStateContext conf waitForDeployment_Refresh 0 (map Inr vs @ rest)
           = WaitForStateContext conf waitForDeployment_Refresh m rest"
proof -
  have z: "(0::nat) < 5" by simp
  have "\<not> (5 - 0 \<le> length vs \<and> list_all deployment_completed (take (5 - 0) vs)
           \<or> five_completed_in_a_row vs)"
    using assms(5) run_at_head [of vs] by auto
  then show ?thesis
    using Wait_general [OF assms(1-4) z, of rest] by (simp only: if_False)
qed

text \<open>
  C4. The wait of the WAF deployment checker, on the answers to the checks it makes before
  the timeout expires. When the answers are pending or in progress and then completed five
  times in a row or more, the wait succeeds; so it does on any answers that are pending, in
  progress or completed and hold five completed answers in a row. When the answers are
  pending, in progress or completed, with no five completed answers in a row, and the next
  answer is failed, the wait returns an error whose message ends with the error message of
  the remote side. When such answers are used up with no failed answer, the wait returns an
  error whose message is that of the timeout.
\<close>

theorem waitForDeployment_outcomes:
  "(list_all deployment_pending ps \<and> list_all deployment_completed cs \<and> 5 \<le> length cs
      \<longrightarrow> waitForDeployment message c wafID (map Inr ps @ map Inr cs @ rest) = None)
   \<and> (list_all (\<lambda>v. deployment_pending v \<or> deployment_completed v) vs
        \<and> five_completed_in_a_row vs
      \<longrightarrow> waitForDeployment message c wafID (map Inr vs @ rest) = None)
   \<and> (list_all (\<lambda>v. deployment_pending v \<or> deployment_completed v) vs
        \<and> \<not> five_completed_in_a_row vs
        \<and> WAFVersion.LastDeploymentStatus f = WAFVersionDeploymentStatusFailed
      \<longrightarrow> waitForDeployment message c wafID (map Inr vs @ Inr f # rest)
          = Some (Errorf (''error waiting for WAF Version ('' @ wafID @ '') to be updated: ''
                    @ ''waf deployment failed. Error message: '' @ WAFVersion.Error f)))
   \<and> (list_all (\<lambda>v. deployment_pending v \<or> deployment_completed v) vs
        \<and> \<not> five_completed_in_a_row vs
      \<longrightarrow> waitForDeployment message c wafID (map Inr vs)
          = Some (Errorf (''error waiting for WAF Version ('' @ wafID @ '') to be updated: ''
                    @ message TimeoutError)))"
proof -
  define conf where
    "conf = \<lparr> Pending = [WAFVersionDeploymentStatusPending,
                          WAFVersionDeploymentStatusInProgress],
              Target = [WAFVersionDeploymentStatusCompleted],
              StateChangeConf.Timeout = WAFDeploymentChecker.Timeout c,
              StateChangeConf.Delay = WAFDeploymentChecker.Delay c,
              StateChangeConf.MinTimeout = WAFDeploymentChecker.MinTimeout c,
              ContinuousTargetOccurence = 5,
              NotFoundChecks = 1 \<rparr>"
  have P: "Pending conf = [WAFVersionDeploymentStatusPending,
                           WAFVersionDeploymentStatusInProgress]"
    and T: "Target conf = [WAFVersionDeploymentStatusCompleted]"
    and O: "ContinuousTargetOccurence conf = 5"
    by (simp_all add: conf_def)
  have W: "\<And>answers. waitForDeployment message c wafID answers
        = (case WaitForStateContext conf waitForDeployment_Refresh 0 answers of
             Some err \<Rightarrow>
               Some (Errorf (''error waiting for WAF Version ('' @ wafID
                             @ '') to be updated: '' @ fmt_v message err))
           | None \<Rightarrow> None)"
    by (simp add: waitForDeployment_def conf_def)
  have skip: "\<And>xs. list_all deployment_pending ps \<Longrightarrow>
        WaitForStateContext conf waitForDeployment_Refresh 0 (map Inr ps @ xs)
        = WaitForStateContext conf waitForDeployment_Refresh 0 xs"
    using Wait_pending [OF P T, of ps 0] by simp
  have a: "list_all deployment_pending ps \<and> list_all deployment_completed cs
            \<and> 5 \<le> length cs
      \<longrightarrow> waitForDeployment message c wafID (map Inr ps @ map Inr cs @ rest) = None"
  proof (rule impI)
    assume h: "list_all deployment_pending ps \<and> list_all deployment_completed cs
                \<and> 5 \<le> length cs"
    have "WaitForStateContext conf waitForDeployment_Refresh 0 (map Inr cs @ rest) = None"
      by (rule Wait_completed_enough [OF T O]) (use h in simp_all)
    then show "waitForDeployment message c wafID (map Inr ps @ map Inr cs @ rest) = None"
      using h by (simp add: W skip)
  qed
  have g: "list_all (\<lambda>v. deployment_pending v \<or> deployment_completed v) vs
            \<and> five_completed_in_a_row vs
      \<longrightarrow> waitForDeployment message c wafID (map Inr vs @ rest) = None"
  proof (rule impI)
    assume h: "list_all (\<lambda>v. deployment_pending v \<or> deployment_completed v) vs
                \<and> five_completed_in_a_row vs"
    have "WaitForStateContext conf waitForDeployment_Refresh 0 (map Inr vs @ rest) = None"
      by (rule Wait_five [OF P T O]) (use h in simp_all)
    then show "waitForDeployment message c wafID (map Inr vs @ rest) = None"
      by (simp only: W option.case)
  qed
  have b: "list_all (\<lambda>v. deployment_pending v \<or> deployment_completed v) vs
            \<and> \<not> five_completed_in_a_row vs
            \<and> WAFVersion.LastDeploymentStatus f = WAFVersionDeploymentStatusFailed
      \<longrightarrow> waitForDeployment message c wafID (map Inr vs @ Inr f # rest)
          = Some (Errorf (''error waiting for WAF Version ('' @ wafID @ '') to be updated: ''
                    @ ''waf deployment failed. Error message: '' @ WAFVersion.Error f))"
  proof (rule impI)
    assume h: "list_all (\<lambda>v. deployment_pending v \<or> deployment_completed v) vs
                \<and> \<not> five_completed_in_a_row vs
                \<and> WAFVersion.LastDeploymentStatus f = WAFVersionDeploymentStatusFailed"
    have "\<exists>m<5. WaitForStateContext conf waitForDeployment_Refresh 0
                   (map Inr vs @ Inr f # rest)
                = WaitForStateContext conf waitForDeployment_Refresh m (Inr f # rest)"
      by (rule Wait_no_five [OF P T O]) (use h in simp_all)
    then obtain m where
      "WaitForStateContext conf waitForDeployment_Refresh 0 (map Inr vs @ Inr f # rest)
       = WaitForStateContext conf waitForDeployment_Refresh m (Inr f # rest)"
      by blast
    also have "\<dots> = Some (Errorf (''waf deployment failed. Error message: ''
                                  @ WAFVersion.Error f))"
      by (rule Wait_failed) (use h in simp)
    finally show "waitForDeployment message c wafID (map Inr vs @ Inr f # rest)
          = Some (Errorf (''error waiting for WAF Version ('' @ wafID @ '') to be updated: ''
                    @ ''waf deployment failed. Error message: '' @ WAFVersion.Error f))"
      by (simp only: W option.case fmt_v_def error.case)
  qed
  have d: "list_all (\<lambda>v. deployment_pending v \<or> deployment_completed v) vs
            \<and> \<not> five_completed_in_a_row vs
      \<longrightarrow> waitForDeployment message c wafID (map Inr vs)
          = Some (Errorf (''error waiting for WAF Version ('' @ wafID @ '') to be updated: ''
                    @ message TimeoutError))"
  proof (rule impI)
    assume h: "list_all (\<lambda>v. deployment_pending v \<or> deployment_completed v) vs
                \<and> \<not> five_completed_in_a_row vs"
    have "\<exists>m<5. WaitForStateContext conf waitForDeployment_Refresh 0 (map Inr vs @ [])
                = WaitForStateContext conf waitForDeployment_Refresh m []"
      by (rule Wait_no_five [OF P T O]) (use h in simp_all)
    then have "WaitForStateContext conf waitForDeployment_Refresh 0 (map Inr vs)
          = Some TimeoutError"
      by auto
    then show "waitForDeployment message c wafID (map Inr vs)
          = Some (Errorf (''error waiting for WAF Version ('' @ wafID @ '') to be updated: ''
                    @ message TimeoutError))"
      by (simp only: W option.case fmt_v_def error.case)
  qed
  show ?thesis
    by (intro conjI a g b d)
qed

theorem waitForDeployment_outcomes_witness:
  "waitForDeployment example_message example_checker ''waf1''
     [Inr (example_WAFVersion ''pending'' ''''), Inr (example_WAFVersion ''in_progress'' ''''),
      Inr (example_WAFVersion ''completed'' ''''), Inr (example_WAFVersion ''completed'' ''''),
      Inr (example_WAFVersion ''completed'' ''''), Inr (example_WAFVersion ''completed'' ''''),
      Inr (example_WAFVersion ''completed'' '''')] = None
   \<and> waitForDeployment example_message example_checker ''waf1''
     [Inr (example_WAFVersion ''completed'' ''''), Inr (example_WAFVersion ''pending'' ''''),
      Inr (example_WAFVersion ''completed'' ''''), Inr (example_WAFVersion ''completed'' ''''),
      Inr (example_WAFVersion ''completed'' ''''), Inr (example_WAFVersion ''completed'' ''''),
      Inr (example_WAFVersion ''completed'' '''')] = None
   \<and> waitForDeployment example_message example_checker ''waf1''
     [Inr (example_WAFVersion ''pending'' ''''), Inr (example_WAFVersion ''completed'' ''''),
      Inr (example_WAFVersion ''in_progress'' ''''),
      Inr (example_WAFVersion ''failed'' ''rule 42 is invalid'')]
     = Some (Errorf (''error waiting for WAF Version (waf1) to be updated: ''
               @ ''waf deployment failed. Error message: rule 42 is invalid''))
   \<and> waitForDeployment example_message example_checker ''waf1''
     [Inr (example_WAFVersion ''pending'' ''''), Inr (example_WAFVersion ''in_progress'' ''''),
      Inr (example_WAFVersion ''completed'' ''''), Inr (example_WAFVersion ''completed'' '''')]
     = Some (Errorf (''error waiting for WAF Version (waf1) to be updated: ''
               @ ''timeout while waiting for state''))"
  using
    waitForDeployment_outcomes [where
      ps = "[example_WAFVersion ''pending'' '''', example_WAFVersion ''in_progress'' '''']"
      and cs = "[example_WAFVersion ''completed'' '''', example_WAFVersion ''completed'' '''',
        example_WAFVersion ''completed'' '''', example_WAFVersion ''completed'' '''',
        example_WAFVersion ''completed'' '''']"
      and vs = "[example_WAFVersion ''completed'' '''', example_WAFVersion ''pending'' '''',
        example_WAFVersion ''completed'' '''', example_WAFVersion ''completed'' '''',
        example_WAFVersion ''completed'' '''', example_WAFVersion ''completed'' '''',
        example_WAFVersion ''completed'' '''']"
      and message = example_message and c = example_checker and wafID = "''waf1''"
      and rest = "[]" and f = "example_WAFVersion ''failed'' ''rule 42 is invalid''"]
    waitForDeployment_outcomes [where
      ps = "[]" and cs = "[]"
      and vs = "[example_WAFVersion ''pending'' '''', example_WAFVersion ''completed'' '''',
        example_WAFVersion ''in_progress'' '''']"
      and message = example_message and c = example_checker and wafID = "''waf1''"
      and rest = "[]" and f = "example_WAFVersion ''failed'' ''rule 42 is invalid''"]
    waitForDeployment_outcomes [where
      ps = "[]" and cs = "[]"
      and vs = "[example_WAFVersion ''pending'' '''', example_WAFVersion ''in_progress'' '''',
        example_WAFVersion ''completed'' '''', example_WAFVersion ''completed'' '''']"
      and message = example_message and c = example_checker and wafID = "''waf1''"
      and rest = "[]" and f = "example_WAFVersion ''failed'' ''rule 42 is invalid''"]
  by (simp add: deployment_pending_def deployment_completed_def example_WAFVersion_def
        WAFVersionDeploymentStatusPending_def WAFVersionDeploymentStatusInProgress_def
        WAFVersionDeploymentStatusCompleted_def WAFVersionDeploymentStatusFailed_def
        example_message_def)

section \<open>Validation\<close>











section \<open>The status of a Delete\<close>

lemma Delete_status:
  assumes "(let (resp, sent) = Delete c p
            in case resp of
                 Inl err \<Rightarrow> (Some err, sent)
               | Inr body \<Rightarrow>
                   (case decodeStatus c body of
                      Inl err \<Rightarrow> (Some err, sent)
                    | Inr r \<Rightarrow> if \<not> Ok r then (Some ErrNotOK, sent) else (None, sent)))
           = (e, s)"
    and "Do c (hd s) = Inr body" and "decodeStatus c body = Inr r"
  shows "e = (if ok r then None else Some ErrNotOK)"
proof -
  have s: "s = [Request DELETE p None]"
    using assms(1) by (simp add: Delete_def send_def split: sum.splits if_splits)
  then have "Do c (Request DELETE p None) = Inr body"
    using assms(2) by simp
  then show ?thesis
    using assms(1,3) by (simp add: Delete_def send_def Ok_def split: if_splits)
qed

lemma DeleteS3_status:
  assumes "DeleteS3 c i = (err, sent)" "sent \<noteq> []" "Do c (hd sent) = Inr body"
    "decodeStatus c body = Inr r"
  shows "err = (if ok r then None else Some ErrNotOK)"
proof -
  have valid: "DeleteS3Input.ServiceID i \<noteq> '''' \<and> DeleteS3Input.ServiceVersion i \<noteq> 0
        \<and> DeleteS3Input.Name i \<noteq> ''''"
  proof (rule ccontr)
    assume "\<not> ?thesis"
    then have "snd (DeleteS3 c i) = []" by (auto simp: DeleteS3_def)
    then show False using assms(1,2) by simp
  qed
  show ?thesis
    by (rule Delete_status [OF _ assms(3,4)])
       (use assms(1) valid in \<open>simp only: DeleteS3_def if_False Let_def [of "_ @ _"]\<close>)
qed

lemma DeleteHeader_status:
  assumes "DeleteHeader c i = (err, sent)" "sent \<noteq> []" "Do c (hd sent) = Inr body"
    "decodeStatus c body = Inr r"
  shows "err = (if ok r then None else Some ErrNotOK)"
proof -
  have valid: "DeleteHeaderInput.ServiceID i \<noteq> '''' \<and> DeleteHeaderInput.ServiceVersion i \<noteq> 0
        \<and> DeleteHeaderInput.Name i \<noteq> ''''"
  proof (rule ccontr)
    assume "\<not> ?thesis"
    then have "snd (DeleteHeader c i) = []" by (auto simp: DeleteHeader_def)
    then show False using assms(1,2) by simp
  qed
  show ?thesis
    by (rule Delete_status [OF _ assms(3,4)])
       (use assms(1) valid in \<open>simp only: DeleteHeader_def if_False Let_def [of "_ @ _"]\<close>)
qed

lemma DeleteGzip_status:
  assumes "DeleteGzip c i = (err, sent)" "sent \<noteq> []" "Do c (hd sent) = Inr body"
    "decodeStatus c body = Inr r"
  shows "err = (if ok r then None else Some ErrNotOK)"
proof -
  have valid: "DeleteGzipInput.ServiceID i \<noteq> '''' \<and> DeleteGzipInput.ServiceVersion i \<noteq> 0
        \<and> DeleteGzipInput.Name i \<noteq> ''''"
  proof (rule ccontr)
    assume "\<not> ?thesis"
    then have "snd (DeleteGzip c i) = []" by (auto simp: DeleteGzip_def)
    then show False using assms(1,2) by simp
  qed
  show ?thesis
    by (rule Delete_status [OF _ assms(3,4)])
       (use assms(1) valid in \<open>simp only: DeleteGzip_def if_False Let_def [of "_ @ _"]\<close>)
qed

lemma DeleteServer_status:
  assumes "DeleteServer c i = (err, sent)" "sent \<noteq> []" "Do c (hd sent) = Inr body"
    "decodeStatus c body = Inr r"
  shows "err = (if ok r then None else Some ErrNotOK)"
proof -
  have valid: "DeleteServerInput.ServiceID i \<noteq> '''' \<and> DeleteServerInput.PoolID i \<noteq> ''''
        \<and> DeleteServerInput.Server i \<noteq> ''''"
  proof (rule ccontr)
    assume "\<not> ?thesis"
    then have "snd (DeleteServer c i) = []" by (auto simp: DeleteServer_def)
    then show False using assms(1,2) by simp
  qed
  show ?thesis
    by (rule Delete_status [OF _ assms(3,4)])
       (use assms(1) valid in \<open>simp only: DeleteServer_def if_False Let_def [of "_ @ _"]\<close>)
qed

lemma example_DeleteS3:
  "DeleteS3 (example_Client b)
     \<lparr> DeleteS3Input.ServiceID = ''svc'', DeleteS3Input.ServiceVersion = 1,
       DeleteS3Input.Name = ''logger'' \<rparr>
   = (if b then None else Some ErrNotOK,
      [Request DELETE ''/service/svc/version/1/logging/s3/logger'' None])"
  by (simp add: DeleteS3_def Delete_def send_def example_Client_def fmt_d_def digits.simps
        Ok_def)

lemma example_DeleteHeader:
  "DeleteHeader (example_Client b)
     \<lparr> DeleteHeaderInput.ServiceID = ''svc'', DeleteHeaderInput.ServiceVersion = 1,
       DeleteHeaderInput.Name = ''h'' \<rparr>
   = (if b then None else Some ErrNotOK,
      [Request DELETE ''/service/svc/version/1/header/h'' None])"
  by (simp add: DeleteHeader_def Delete_def send_def example_Client_def fmt_d_def digits.simps
        Ok_def)

lemma example_DeleteGzip:
  "DeleteGzip (example_Client b)
     \<lparr> DeleteGzipInput.ServiceID = ''svc'', DeleteGzipInput.ServiceVersion = 1,
       DeleteGzipInput.Name = ''g'' \<rparr>
   = (if b then None else Some ErrNotOK,
      [Request DELETE ''/service/svc/version/1/gzip/g'' None])"
  by (simp add: DeleteGzip_def Delete_def send_def example_Client_def fmt_d_def digits.simps
        Ok_def)

lemma example_DeleteServer:
  "DeleteServer (example_Client b)
     \<lparr> DeleteServerInput.ServiceID = ''svc'', DeleteServerInput.PoolID = ''pool'',
       DeleteServerInput.Server = ''id-a'' \<rparr>
   = (if b then None else Some ErrNotOK,
      [Request DELETE ''/service/svc/pool/pool/server/id-a'' None])"
  by (simp add: DeleteServer_def Delete_def send_def example_Client_def Ok_def)

lemma example_Do: "Do (example_Client b) r = Inr ''{}''"
  by (simp add: example_Client_def)

lemma example_decodeStatus: "decodeStatus (example_Client b) body = Inr \<lparr> ok = b \<rparr>"
  by (simp add: example_Client_def)

text \<open>
  C6. For each of the four Delete functions of the client: when the function has sent its
  request and the remote side has answered with a body that decodes to a status object, the
  function returns nil exactly when the \<open>ok\<close> field of the status object is true, and it
  returns \<open>ErrNotOK\<close> when the field is not true.
\<close>

theorem Delete_succeeds_iff_status_ok:
  "(DeleteS3 c i1 = (err1, sent1) \<and> sent1 \<noteq> [] \<and> Do c (hd sent1) = Inr body1
      \<and> decodeStatus c body1 = Inr r1
    \<longrightarrow> (err1 = None \<longleftrightarrow> ok r1) \<and> (\<not> ok r1 \<longrightarrow> err1 = Some ErrNotOK))
   \<and> (DeleteHeader c i2 = (err2, sent2) \<and> sent2 \<noteq> [] \<and> Do c (hd sent2) = Inr body2
      \<and> decodeStatus c body2 = Inr r2
    \<longrightarrow> (err2 = None \<longleftrightarrow> ok r2) \<and> (\<not> ok r2 \<longrightarrow> err2 = Some ErrNotOK))
   \<and> (DeleteGzip c i3 = (err3, sent3) \<and> sent3 \<noteq> [] \<and> Do c (hd sent3) = Inr body3
      \<and> decodeStatus c body3 = Inr r3
    \<longrightarrow> (err3 = None \<longleftrightarrow> ok r3) \<and> (\<not> ok r3 \<longrightarrow> err3 = Some ErrNotOK))
   \<and> (DeleteServer c i4 = (err4, sent4) \<and> sent4 \<noteq> [] \<and> Do c (hd sent4) = Inr body4
      \<and> decodeStatus c body4 = Inr r4
    \<longrightarrow> (err4 = None \<longleftrightarrow> ok r4) \<and> (\<not> ok r4 \<longrightarrow> err4 = Some ErrNotOK))"
proof -
  have a: "DeleteS3 c i1 = (err1, sent1) \<and> sent1 \<noteq> [] \<and> Do c (hd sent1) = Inr body1
      \<and> decodeStatus c body1 = Inr r1
    \<longrightarrow> (err1 = None \<longleftrightarrow> ok r1) \<and> (\<not> ok r1 \<longrightarrow> err1 = Some ErrNotOK)"
  proof (rule impI)
    assume h: "DeleteS3 c i1 = (err1, sent1) \<and> sent1 \<noteq> [] \<and> Do c (hd sent1) = Inr body1
      \<and> decodeStatus c body1 = Inr r1"
    have "err1 = (if ok r1 then None else Some ErrNotOK)"
      by (rule DeleteS3_status [of c i1 err1 sent1 body1 r1]) (use h in simp_all)
    then show "(err1 = None \<longleftrightarrow> ok r1) \<and> (\<not> ok r1 \<longrightarrow> err1 = Some ErrNotOK)"
      by simp
  qed
  have b: "DeleteHeader c i2 = (err2, sent2) \<and> sent2 \<noteq> [] \<and> Do c (hd sent2) = Inr body2
      \<and> decodeStatus c body2 = Inr r2
    \<longrightarrow> (err2 = None \<longleftrightarrow> ok r2) \<and> (\<not> ok r2 \<longrightarrow> err2 = Some ErrNotOK)"
  proof (rule impI)
    assume h: "DeleteHeader c i2 = (err2, sent2) \<and> sent2 \<noteq> [] \<and> Do c (hd sent2) = Inr body2
      \<and> decodeStatus c body2 = Inr r2"
    have "err2 = (if ok r2 then None else Some ErrNotOK)"
      by (rule DeleteHeader_status [of c i2 err2 sent2 body2 r2]) (use h in simp_all)
    then show "(err2 = None \<longleftrightarrow> ok r2) \<and> (\<not> ok r2 \<longrightarrow> err2 = Some ErrNotOK)"
      by simp
  qed
  have c: "DeleteGzip c i3 = (err3, sent3) \<and> sent3 \<noteq> [] \<and> Do c (hd sent3) = Inr body3
      \<and> decodeStatus c body3 = Inr r3
    \<longrightarrow> (err3 = None \<longleftrightarrow> ok r3) \<and> (\<not> ok r3 \<longrightarrow> err3 = Some ErrNotOK)"
  proof (rule impI)
    assume h: "DeleteGzip c i3 = (err3, sent3) \<and> sent3 \<noteq> [] \<and> Do c (hd sent3) = Inr body3
      \<and> decodeStatus c body3 = Inr r3"
    have "err3 = (if ok r3 then None else Some ErrNotOK)"
      by (rule DeleteGzip_status [of c i3 err3 sent3 body3 r3]) (use h in simp_all)
    then show "(err3 = None \<longleftrightarrow> ok r3) \<and> (\<not> ok r3 \<longrightarrow> err3 = Some ErrNotOK)"
      by simp
  qed
  have d: "DeleteServer c i4 = (err4, sent4) \<and> sent4 \<noteq> [] \<and> Do c (hd sent4) = Inr body4
      \<and> decodeStatus c body4 = Inr r4
    \<longrightarrow> (err4 = None \<longleftrightarrow> ok r4) \<and> (\<not> ok r4 \<longrightarrow> err4 = Some ErrNotOK)"
  proof (rule impI)
    assume h: "DeleteServer c i4 = (err4, sent4) \<and> sent4 \<noteq> [] \<and> Do c (hd sent4) = Inr body4
      \<and> decodeStatus c body4 = Inr r4"
    have "err4 = (if ok r4 then None else Some ErrNotOK)"
      by (rule DeleteServer_status [of c i4 err4 sent4 body4 r4]) (use h in simp_all)
    then show "(err4 = None \<longleftrightarrow> ok r4) \<and> (\<not> ok r4 \<longrightarrow> err4 = Some ErrNotOK)"
      by simp
  qed
  show ?thesis
    by (intro conjI a b c d)
qed

theorem Delete_succeeds_iff_status_ok_witness:
  "DeleteS3 (example_Client True)
     \<lparr> DeleteS3Input.ServiceID = ''svc'', DeleteS3Input.ServiceVersion = 1,
       DeleteS3Input.Name = ''logger'' \<rparr>
     = (None, [Request DELETE ''/service/svc/version/1/logging/s3/logger'' None])
   \<and> DeleteHeader (example_Client False)
     \<lparr> DeleteHeaderInput.ServiceID = ''svc'', DeleteHeaderInput.ServiceVersion = 1,
       DeleteHeaderInput.Name = ''h'' \<rparr>
     = (Some ErrNotOK, [Request DELETE ''/service/svc/version/1/header/h'' None])
   \<and> DeleteGzip (example_Client True)
     \<lparr> DeleteGzipInput.ServiceID = ''svc'', DeleteGzipInput.ServiceVersion = 1,
       DeleteGzipInput.Name = ''g'' \<rparr>
     = (None, [Request DELETE ''/service/svc/version/1/gzip/g'' None])
   \<and> DeleteServer (example_Client False)
     \<lparr> DeleteServerInput.ServiceID = ''svc'', DeleteServerInput.PoolID = ''pool'',
       DeleteServerInput.Server = ''id-a'' \<rparr>
     = (Some ErrNotOK, [Request DELETE ''/service/svc/pool/pool/server/id-a'' None])
   \<and> ((None :: error option) = None \<longleftrightarrow> ok \<lparr> ok = True \<rparr>)
   \<and> (Some ErrNotOK = None \<longleftrightarrow> ok \<lparr> ok = False \<rparr>)"
proof -
  have s3: "DeleteS3 (example_Client True)
     \<lparr> DeleteS3Input.ServiceID = ''svc'', DeleteS3Input.ServiceVersion = 1,
       DeleteS3Input.Name = ''logger'' \<rparr>
     = (None, [Request DELETE ''/service/svc/version/1/logging/s3/logger'' None])"
    using example_DeleteS3 [of True] by simp
  have hd: "DeleteHeader (example_Client False)
     \<lparr> DeleteHeaderInput.ServiceID = ''svc'', DeleteHeaderInput.ServiceVersion = 1,
       DeleteHeaderInput.Name = ''h'' \<rparr>
     = (Some ErrNotOK, [Request DELETE ''/service/svc/version/1/header/h'' None])"
    using example_DeleteHeader [of False] by simp
  have gz: "DeleteGzip (example_Client True)
     \<lparr> DeleteGzipInput.ServiceID = ''svc'', DeleteGzipInput.ServiceVersion = 1,
       DeleteGzipInput.Name = ''g'' \<rparr>
     = (None, [Request DELETE ''/service/svc/version/1/gzip/g'' None])"
    using example_DeleteGzip [of True] by simp
  have sv: "DeleteServer (example_Client False)
     \<lparr> DeleteServerInput.ServiceID = ''svc'', DeleteServerInput.PoolID = ''pool'',
       DeleteServerInput.Server = ''id-a'' \<rparr>
     = (Some ErrNotOK, [Request DELETE ''/service/svc/pool/pool/server/id-a'' None])"
    using example_DeleteServer [of False] by simp
  have t: "(None :: error option) = None \<longleftrightarrow> ok \<lparr> ok = True \<rparr>"
    using Delete_succeeds_iff_status_ok [THEN conjunct1, rule_format, THEN conjunct1,
        of "example_Client True" _ None _ "''{}''" "\<lparr> ok = True \<rparr>"]
      s3 example_Do [of True] example_decodeStatus [of True] by blast
  have f: "Some ErrNotOK = None \<longleftrightarrow> ok \<lparr> ok = False \<rparr>"
    using Delete_succeeds_iff_status_ok [THEN conjunct2, THEN conjunct1, rule_format,
        THEN conjunct1, of "example_Client False" _ "Some ErrNotOK" _ "''{}''"
        "\<lparr> ok = False \<rparr>"]
      hd example_Do [of False] example_decodeStatus [of False] by blast
  have g: "(None :: error option) = None \<longleftrightarrow> ok \<lparr> ok = True \<rparr>"
    using Delete_succeeds_iff_status_ok [THEN conjunct2, THEN conjunct2, THEN conjunct1,
        rule_format, THEN conjunct1, of "example_Client True" _ None _ "''{}''"
        "\<lparr> ok = True \<rparr>"]
      gz example_Do [of True] example_decodeStatus [of True] by blast
  have h: "Some ErrNotOK = None \<longleftrightarrow> ok \<lparr> ok = False \<rparr>"
    using Delete_succeeds_iff_status_ok [THEN conjunct2, THEN conjunct2, THEN conjunct2,
        rule_format, THEN conjunct1, of "example_Client False" _ "Some ErrNotOK" _ "''{}''"
        "\<lparr> ok = False \<rparr>"]
      sv example_Do [of False] example_decodeStatus [of False] by blast
  show ?thesis
    using s3 hd gz sv t f g h by blast
qed

section \<open>The schemas of the logging blocks\<close>

text \<open>
  C7. The attributes of the schema that \<open>GetSchema\<close> returns, for the Datadog handler and for
  the S3 handler: the attributes \<open>format\<close>, \<open>format_version\<close>, \<open>response_condition\<close> and
  \<open>placement\<close> are part of the schema exactly when the service type of the handler's metadata
  is VCL; every other attribute of the block is part of the schema for both service types.
\<close>

theorem GetSchema_VCL_attributes:
  "dom (Elem (DatadogServiceAttributeHandler_GetSchema h))
     = {''name'', ''region'', ''token''}
       \<union> (if serviceType (GetServiceMetadata h) = ServiceTypeVCL
          then {''format'', ''format_version'', ''response_condition'', ''placement''} else {})
   \<and> dom (Elem (S3LoggingServiceAttributeHandler_GetSchema h))
     = {''acl'', ''bucket_name'', ''compression_codec'', ''domain'', ''gzip_level'',
        ''message_type'', ''name'', ''path'', ''period'', ''public_key'', ''redundancy'',
        ''s3_access_key'', ''s3_iam_role'', ''s3_secret_key'', ''server_side_encryption'',
        ''server_side_encryption_kms_key_id'', ''timestamp_format''}
       \<union> (if serviceType (GetServiceMetadata h) = ServiceTypeVCL
          then {''format'', ''format_version'', ''response_condition'', ''placement''} else {})"
  by (auto simp: DatadogServiceAttributeHandler_GetSchema_def
        S3LoggingServiceAttributeHandler_GetSchema_def Let_def)

theorem GetSchema_VCL_attributes_witness:
  "''placement'' \<in> dom (Elem (DatadogServiceAttributeHandler_GetSchema
       \<lparr> key = ''logging_datadog'', serviceMetadata = \<lparr> serviceType = ServiceTypeVCL \<rparr> \<rparr>))
   \<and> ''placement'' \<notin> dom (Elem (DatadogServiceAttributeHandler_GetSchema
       \<lparr> key = ''logging_datadog'', serviceMetadata = \<lparr> serviceType = ServiceTypeCompute \<rparr> \<rparr>))
   \<and> ''format'' \<in> dom (Elem (S3LoggingServiceAttributeHandler_GetSchema
       \<lparr> key = ''logging_s3'', serviceMetadata = \<lparr> serviceType = ServiceTypeVCL \<rparr> \<rparr>))
   \<and> ''format'' \<notin> dom (Elem (S3LoggingServiceAttributeHandler_GetSchema
       \<lparr> key = ''logging_s3'', serviceMetadata = \<lparr> serviceType = ServiceTypeCompute \<rparr> \<rparr>))
   \<and> ''bucket_name'' \<in> dom (Elem (S3LoggingServiceAttributeHandler_GetSchema
       \<lparr> key = ''logging_s3'', serviceMetadata = \<lparr> serviceType = ServiceTypeCompute \<rparr> \<rparr>))"
  using
    GetSchema_VCL_attributes [of
      "\<lparr> key = ''logging_datadog'', serviceMetadata = \<lparr> serviceType = ServiceTypeVCL \<rparr> \<rparr>"]
    GetSchema_VCL_attributes [of
      "\<lparr> key = ''logging_datadog'', serviceMetadata = \<lparr> serviceType = ServiceTypeCompute \<rparr> \<rparr>"]
    GetSchema_VCL_attributes [of
      "\<lparr> key = ''logging_s3'', serviceMetadata = \<lparr> serviceType = ServiceTypeVCL \<rparr> \<rparr>"]
    GetSchema_VCL_attributes [of
      "\<lparr> key = ''logging_s3'', serviceMetadata = \<lparr> serviceType = ServiceTypeCompute \<rparr> \<rparr>"]
  by (simp add: GetServiceMetadata_def)

section \<open>Creating and reading back\<close>

lemma is_string_the_string: "is_string v \<Longrightarrow> v = Some (AString (the_string v))"
  by (cases v rule: is_string.cases) simp_all

lemma is_int_the_int: "is_int v \<Longrightarrow> v = Some (AInt (the_int v))"
  by (cases v rule: is_int.cases) simp_all


















section \<open>The validation of UpdateS3\<close>

text \<open>
  C9 fails on the code. \<open>UpdateS3\<close> for an input whose \<open>ServerSideEncryption\<close> is set to
  \<open>aws:kms\<close> and whose \<open>ServerSideEncryptionKMSKeyID\<close> is nil panics, before any request is
  sent; the handler's \<open>Update\<close> builds that input when only \<open>server_side_encryption\<close> has
  changed. \<open>CreateS3\<close> returns \<open>ErrMissingServerSideEncryptionKMSKeyID\<close> for the same
  configuration.
\<close>

theorem UpdateS3_kms_without_key_id_panics:
  "UpdateS3Input.ServerSideEncryption
     (S3LoggingServiceAttributeHandler_Update_opts ''svc'' example_config
        [''server_side_encryption'' \<mapsto> AString ''aws:kms''] 1) = Some ''aws:kms''
   \<and> UpdateS3Input.ServerSideEncryptionKMSKeyID
     (S3LoggingServiceAttributeHandler_Update_opts ''svc'' example_config
        [''server_side_encryption'' \<mapsto> AString ''aws:kms''] 1) = None
   \<and> UpdateS3 (example_Client True)
     (S3LoggingServiceAttributeHandler_Update_opts ''svc'' example_config
        [''server_side_encryption'' \<mapsto> AString ''aws:kms''] 1) = (Panics, [])
   \<and> S3LoggingServiceAttributeHandler_Update (example_Client True) ''svc'' example_config
        [''server_side_encryption'' \<mapsto> AString ''aws:kms''] 1 = (Panics, [])
   \<and> S3LoggingServiceAttributeHandler_Create example_vla example_uintOrDefault
        (example_Client True) ''svc''
        (example_config(''server_side_encryption'' \<mapsto> AString ''aws:kms'')) 1
       = (Returns (Some ErrMissingServerSideEncryptionKMSKeyID), [])"
  by (simp add: S3LoggingServiceAttributeHandler_Update_def
        S3LoggingServiceAttributeHandler_Update_asserts_def
        S3LoggingServiceAttributeHandler_Update_opts_def UpdateS3_def
        UpdateS3_missing_kms_key_id_def changed_string_def changed_uint_def changed_uint8_def
        example_config_def S3ServerSideEncryptionKMS_def S3ServerSideEncryptionAES_def
        S3LoggingServiceAttributeHandler_Create_def
        S3LoggingServiceAttributeHandler_buildCreate_def
        S3LoggingServiceAttributeHandler_buildCreate_asserts_def createS3_def CreateS3_def)

section \<open>Pruning in the flatten functions\<close>

lemma prune_empty_plain: "prune_empty m k \<noteq> Some (AString '''')"
  by (simp add: prune_empty_def split: option.splits)

lemma flatten_prunes_plain_strings:
  "m \<in> set (flattenS3s s3List) \<union> set (flattenDatadog datadogList)
     \<Longrightarrow> m k \<noteq> Some (AString '''')"
  by (auto simp: flattenS3s_def flattenS3s_one_def flattenDatadog_def flattenDatadog_one_def
        prune_empty_plain)

lemma prune_empty_Some: "prune_empty m k = Some v \<Longrightarrow> m k = Some v \<and> v \<noteq> AString ''''"
  by (simp add: prune_empty_def split: option.splits if_splits)

lemma flattenDatadog_no_empty_string:
  assumes "m \<in> set (flattenDatadog datadogList)" "m k = Some v"
  shows "\<not> is_empty_string v"
proof -
  obtain dl where m: "m = flattenDatadog_one dl"
    using assms(1) by (auto simp: flattenDatadog_def)
  from assms(2) [unfolded m flattenDatadog_one_def, THEN prune_empty_Some]
  show ?thesis
    by (auto split: if_splits)
qed

text \<open>
  C10 fails on the code for \<open>flattenS3s\<close>. The map that \<open>flattenS3s\<close> builds for a logger
  whose redundancy, server-side encryption and ACL are empty keeps the three keys, each with
  the empty string of its named string type: the comparison \<open>v == ""\<close> of the pruning loop
  holds for a value of the type \<open>string\<close> only. The empty path, a plain string, is pruned.
\<close>

theorem flattenS3s_keeps_empty_named_strings:
  "hd (flattenS3s [example_S3 ''logger'']) ''redundancy'' = Some (AS3Redundancy '''')
   \<and> hd (flattenS3s [example_S3 ''logger'']) ''server_side_encryption''
       = Some (AS3ServerSideEncryption '''')
   \<and> hd (flattenS3s [example_S3 ''logger'']) ''acl'' = Some (AS3AccessControlList '''')
   \<and> is_empty_string (AS3Redundancy '''')
   \<and> is_empty_string (AS3ServerSideEncryption '''')
   \<and> is_empty_string (AS3AccessControlList '''')
   \<and> S3.Path (example_S3 ''logger'') = ''''
   \<and> hd (flattenS3s [example_S3 ''logger'']) ''path'' = None"
  by (simp add: flattenS3s_def flattenS3s_one_def prune_empty_def example_S3_def)

end
